theory Spec2Isabelle
  imports Complex_Main "HOL-Library.Sublist"
begin

section \<open>Python strings\<close>

text \<open>
  Python strings are modelled as \<^typ>\<open>string\<close>, one \<^typ>\<open>char\<close> per code point below 256.
  \<open>py_isspace\<close> is \<open>str.isspace\<close> on that range, \<open>strip\<close> is \<open>str.strip()\<close> and
  \<open>py_slice\<close> is \<open>s[i:j]\<close> with Python's clamping of the two bounds.
\<close>

definition py_isspace :: "char \<Rightarrow> bool" where
  "py_isspace c = (c \<in> {CHR 0x09, CHR 0x0A, CHR 0x0B, CHR 0x0C, CHR 0x0D,
                         CHR 0x1C, CHR 0x1D, CHR 0x1E, CHR 0x1F, CHR 0x20,
                         CHR 0x85, CHR 0xA0})"

definition strip :: "string \<Rightarrow> string" where
  "strip s = rev (dropWhile py_isspace (rev (dropWhile py_isspace s)))"

definition py_slice :: "'a list \<Rightarrow> int \<Rightarrow> int \<Rightarrow> 'a list" where
  "py_slice xs i j =
     (let n = int (length xs);
          i' = (if i < 0 then max (n + i) 0 else min i n);
          j' = (if j < 0 then max (n + j) 0 else min j n)
      in take (nat (j' - i')) (drop (nat i') xs))"

definition py_lower_char :: "char \<Rightarrow> char" where
  "py_lower_char c =
     (let n = (of_char c :: nat)
      in if (65 \<le> n \<and> n \<le> 90) \<or> (192 \<le> n \<and> n \<le> 222 \<and> n \<noteq> 215)
         then char_of (n + 32) else c)"

definition lower :: "string \<Rightarrow> string" where
  "lower s = map py_lower_char s"

text \<open>\<open>py_in sub s\<close> is Python's \<open>sub in s\<close> on strings: \<open>sub\<close> occurs in \<open>s\<close> as a
  contiguous run.\<close>

fun py_in :: "string \<Rightarrow> string \<Rightarrow> bool" where
  "py_in sub [] = (sub = [])"
| "py_in sub (c # cs) = (prefix sub (c # cs) \<or> py_in sub cs)"

text \<open>\<open>split_ws\<close> is \<open>str.split()\<close> without arguments: the maximal runs of non-space
  characters, in order. The first argument is the word being read.\<close>

fun split_acc :: "string \<Rightarrow> string \<Rightarrow> string list" where
  "split_acc w [] = (if w = [] then [] else [w])"
| "split_acc w (c # cs) =
     (if py_isspace c then (if w = [] then split_acc [] cs else w # split_acc [] cs)
      else split_acc (w @ [c]) cs)"

definition split_ws :: "string \<Rightarrow> string list" where
  "split_ws s = split_acc [] s"

text \<open>\<open>remove_char c s\<close> is \<open>s.replace(c, "")\<close> for a one-character \<open>c\<close>.\<close>

definition remove_char :: "char \<Rightarrow> string \<Rightarrow> string" where
  "remove_char c s = filter (\<lambda>x. x \<noteq> c) s"

text \<open>
  The regular expression \<open>\b + re.escape(p) + \b\<close>, searched in \<open>s\<close>: an occurrence of \<open>p\<close>
  with a word boundary on each side. \<open>is_word_char\<close> is the class \<open>\w\<close> of a Python 3
  string pattern on the code points below 256; \<open>prev\<close> tells whether the character before
  the current position is a word character.
\<close>

definition is_word_char :: "char \<Rightarrow> bool" where
  "is_word_char c =
     (let n = (of_char c :: nat)
      in (48 \<le> n \<and> n \<le> 57) \<or> (65 \<le> n \<and> n \<le> 90) \<or> (97 \<le> n \<and> n \<le> 122) \<or> n = 95
         \<or> n \<in> {170, 178, 179, 181, 185, 186, 188, 189, 190}
         \<or> (192 \<le> n \<and> n \<le> 214) \<or> (216 \<le> n \<and> n \<le> 246) \<or> 248 \<le> n)"

definition starts_with_word :: "string \<Rightarrow> bool" where
  "starts_with_word s = (case s of [] \<Rightarrow> False | c # _ \<Rightarrow> is_word_char c)"

definition match_here :: "string \<Rightarrow> bool \<Rightarrow> string \<Rightarrow> bool" where
  "match_here p prev s =
     (prefix p s \<and> prev \<noteq> starts_with_word s \<and>
      (if p = [] then prev else is_word_char (last p)) \<noteq> starts_with_word (drop (length p) s))"

fun search_from :: "string \<Rightarrow> bool \<Rightarrow> string \<Rightarrow> bool" where
  "search_from p prev [] = match_here p prev []"
| "search_from p prev (c # cs) = (match_here p prev (c # cs) \<or> search_from p (is_word_char c) cs)"

definition word_search :: "string \<Rightarrow> string \<Rightarrow> bool" where
  "word_search p s = search_from p False s"

section \<open>Python numbers\<close>

text \<open>
  Floats are modelled as reals. \<open>py_round x n\<close> is \<open>round(x, n)\<close>: the nearest multiple of
  \<open>10^-n\<close>, a tie going to the even one.
\<close>

definition round_half_even :: "real \<Rightarrow> int" where
  "round_half_even x =
     (let f = \<lfloor>x\<rfloor>; d = x - of_int f
      in if d < 1 / 2 then f else if 1 / 2 < d then f + 1 else if even f then f else f + 1)"

definition py_round :: "real \<Rightarrow> nat \<Rightarrow> real" where
  "py_round x n = of_int (round_half_even (x * 10 ^ n)) / 10 ^ n"

section \<open>Python dictionaries read with get\<close>

text \<open>
  A key of a dictionary is absent, present with the value \<open>None\<close>, or present with a value.
  \<open>get f\<close> is \<open>d.get(k)\<close>, \<open>get_default f v\<close> is \<open>d.get(k, v)\<close>, \<open>or_empty\<close> is \<open>x or ""\<close>,
  \<open>get_float f\<close> is \<open>float(d.get(k, 0.0) or 0.0)\<close> on a numeric field and \<open>py_str\<close> is \<open>str(x)\<close>
  of a string or \<open>None\<close>.
\<close>

datatype 'a field = Absent | Null | Val 'a

definition get :: "'a field \<Rightarrow> 'a option" where
  "get f = (case f of Val v \<Rightarrow> Some v | _ \<Rightarrow> None)"

definition get_default :: "'a field \<Rightarrow> 'a \<Rightarrow> 'a option" where
  "get_default f v = (case f of Absent \<Rightarrow> Some v | Null \<Rightarrow> None | Val x \<Rightarrow> Some x)"

definition or_empty :: "string option \<Rightarrow> string" where
  "or_empty x = (case x of None \<Rightarrow> [] | Some s \<Rightarrow> s)"

definition get_float :: "real field \<Rightarrow> real" where
  "get_float f = (case get_default f 0 of None \<Rightarrow> 0 | Some x \<Rightarrow> (if x = 0 then 0 else x))"

definition py_str :: "string option \<Rightarrow> string" where
  "py_str x = (case x of None \<Rightarrow> ''None'' | Some s \<Rightarrow> s)"

section \<open>core/processing.py: chunk_text\<close>

text \<open>
  The \<open>while start < length\<close> loop of \<open>chunk_text\<close>, with the list \<open>chunks\<close> as an
  accumulator. The loop is written for any \<open>safe_chunk_size\<close> and \<open>safe_overlap\<close>, so it is
  a partial function: \<open>None\<close> is a loop that never ends.
\<close>

partial_function (option) chunk_loop ::
  "string \<Rightarrow> int \<Rightarrow> int \<Rightarrow> int \<Rightarrow> string list \<Rightarrow> string list option" where
  "chunk_loop text safe_chunk_size safe_overlap start chunks =
     (if start < int (length text) then
        (let end = min (start + safe_chunk_size) (int (length text));
             chunk = strip (py_slice text start end);
             chunks' = (if chunk \<noteq> [] then chunks @ [chunk] else chunks)
         in if end = int (length text) then Some chunks'
            else chunk_loop text safe_chunk_size safe_overlap (end - safe_overlap) chunks')
      else Some chunks)"

definition chunk_text :: "string \<Rightarrow> int \<Rightarrow> int \<Rightarrow> string list option" where
  "chunk_text text chunk_size overlap =
     (if text = [] then Some []
      else (let safe_chunk_size = max chunk_size 100;
                safe_overlap = min (max overlap 0) (safe_chunk_size - 1)
            in chunk_loop text safe_chunk_size safe_overlap 0 []))"

section \<open>core/pipeline/ranking.py\<close>

text \<open>
  An evidence item is a dictionary; the record keeps the keys the pipeline reads.
  \<open>created_at\<close> is an instant in seconds (a naive datetime is read as UTC by the code).
\<close>

record item =
  source_name :: "string field"
  insight :: "string field"
  recommendation :: "string field"
  evidence_ref :: "string field"
  confidence :: "real field"
  text_rank :: "real field"
  similarity_score :: "real field"
  created_at :: "real field"
  critic_status :: "string field"
  threat_level :: "string field"

text \<open>The row of the \<open>entities\<close> table (core/entities.py), also the \<open>entity_record\<close> of a
  query context.\<close>

record entity_row =
  e_id :: nat
  e_name :: string
  e_ticker :: string
  e_cik :: "string option"
  e_sector :: "string option"
  e_industry :: "string option"
  e_exchange :: "string option"
  e_entity_type :: string
  e_aliases :: "string list"
  e_created_at :: real
  e_updated_at :: real

record query_context =
  tokens :: "string list"
  ticker :: "string option"
  entity :: "string option"
  entity_record :: "entity_row option"
  timeframe :: string
  intent :: string

text \<open>\<open>recency_score now created_at\<close>: \<open>now\<close> is the reading of the clock, in seconds.\<close>

definition recency_score :: "real \<Rightarrow> real option \<Rightarrow> real" where
  "recency_score now created = (case created of None \<Rightarrow> 0
     | Some t \<Rightarrow> (let age_hours = max ((now - t) / 3600) 0 in 1 / (1 + age_hours / 24)))"

definition source_quality_factor :: "string option \<Rightarrow> string option \<Rightarrow> real" where
  "source_quality_factor src_name ev_ref =
     (let source = lower (or_empty src_name); ref = lower (or_empty ev_ref)
      in if py_in ''sec'' source \<or> py_in ''edgar'' source \<or> py_in ''sec.gov'' ref then 1
         else if py_in ''yahoo finance'' source \<or> py_in ''finance.yahoo.com'' ref then 0.98
         else if py_in ''fmp'' source \<or> py_in ''alpha vantage'' source then 0.95
         else if py_in ''google news'' source \<or> py_in ''news.google.com'' ref then 0.9
         else if py_in ''rss'' source then 0.85
         else if py_in ''reddit'' source then 0.7
         else if py_in ''duckduckgo'' source then 0.75
         else 0.8)"

definition token_relevance :: "string list \<Rightarrow> string option \<Rightarrow> string option \<Rightarrow> real" where
  "token_relevance query_tokens ins rec =
     (let text = lower (or_empty ins @ '' '' @ or_empty rec)
      in if query_tokens = [] then 0
         else (let matches = length (filter (\<lambda>token. py_in token text) query_tokens)
               in min (real matches / real (max (length query_tokens) 1)) 1))"

definition ENTITY_STOP_WORDS :: "string list" where
  "ENTITY_STOP_WORDS =
     [''limited'', ''inc'', ''corp'', ''company'', ''group'', ''holdings'',
      ''technologies'', ''international'', ''services'', ''the'', ''and'',
      ''new'', ''one'', ''first'', ''global'', ''systems'', ''solutions'',
      ''enterprises'', ''partners'', ''capital'', ''financial'', ''industries'',
      ''associates'', ''consulting'', ''management'', ''ltd'', ''plc'', ''llc'',
      ''co'', ''sa'', ''ag'', ''nv'', ''se'', ''gmbh'']"

definition name_parts_of :: "string \<Rightarrow> string list" where
  "name_parts_of name_lower =
     filter (\<lambda>p. 2 < length p \<and> p \<notin> set ENTITY_STOP_WORDS)
       (split_ws (remove_char CHR ''.'' (remove_char CHR '','' name_lower)))"

text \<open>
  The three steps of \<open>_entity_relevance\<close> that raise \<open>score\<close>: the ticker as a word in the
  title or in the text, the name (or its major parts) in the title, the name parts in the
  body.
\<close>

definition ticker_matching :: "string \<Rightarrow> string \<Rightarrow> string \<Rightarrow> real \<Rightarrow> real" where
  "ticker_matching tick_lower title text score =
     (if tick_lower \<noteq> [] \<and> 1 \<le> length tick_lower then
        (if word_search tick_lower title then max score 1
         else if word_search tick_lower text then max score 0.8
         else score)
      else score)"

definition name_in_title :: "string \<Rightarrow> string list \<Rightarrow> string \<Rightarrow> real \<Rightarrow> real" where
  "name_in_title name_lower name_parts title score =
     (if name_lower \<noteq> [] \<and> py_in name_lower title then max score 0.95
      else if name_parts \<noteq> [] then
        (let name_hits = length (filter (\<lambda>p. py_in p title) name_parts)
         in if 0 < name_hits
            then max score (0.85 * (real name_hits / real (length name_parts)))
            else score)
      else score)"

definition name_in_body :: "string list \<Rightarrow> string \<Rightarrow> real \<Rightarrow> real" where
  "name_in_body name_parts text score =
     (if score < 0.5 \<and> name_parts \<noteq> [] then
        (let body_hits = length (filter (\<lambda>p. py_in p text) name_parts)
         in if 0 < body_hits
            then max score (0.4 * (real body_hits / real (length name_parts)))
            else score)
      else score)"

definition entity_relevance :: "string option \<Rightarrow> string option \<Rightarrow> 'a item_scheme \<Rightarrow> real" where
  "entity_relevance tick entity_name it =
     (if or_empty tick = [] \<and> or_empty entity_name = [] then 0.5
      else
        (let title = lower (or_empty (get (source_name it)));
             ins = lower (or_empty (get (insight it)));
             ev_ref = lower (or_empty (get (evidence_ref it)));
             text = title @ '' '' @ ins @ '' '' @ ev_ref;
             tick_lower = lower (or_empty tick);
             name_lower = lower (or_empty entity_name);
             name_parts = name_parts_of name_lower;
             score = name_in_body name_parts text
                       (name_in_title name_lower name_parts title
                          (ticker_matching tick_lower title text 0))
         in py_round score 4))"

text \<open>The factors computed in the loop of \<open>_rank_items\<close> for one item, named as the
  local variables are.\<close>

definition critic_factor :: "'a item_scheme \<Rightarrow> real" where
  "critic_factor it = (if get_default (critic_status it) ''approved'' = Some ''approved'' then 1 else 0.5)"

definition entity_sector :: "query_context \<Rightarrow> string" where
  "entity_sector qc = (case entity_record qc of None \<Rightarrow> [] | Some r \<Rightarrow> lower (or_empty (e_sector r)))"

definition sector_penalty :: "query_context \<Rightarrow> 'a item_scheme \<Rightarrow> real" where
  "sector_penalty qc it =
     (let item_text = lower (or_empty (get (insight it)))
      in if entity_sector qc \<noteq> [] \<and> 3 < length (entity_sector qc) \<and> py_in (entity_sector qc) item_text
         then 1.1 else 1)"

definition pollution_penalty :: "string option \<Rightarrow> 'a item_scheme \<Rightarrow> real" where
  "pollution_penalty entity_name it =
     (let src_name = lower (py_str (get_default (source_name it) []))
      in if py_in ''google news:'' src_name \<or> py_in ''yahoo finance news:'' src_name then
           (if or_empty entity_name \<noteq> [] \<and> \<not> py_in (lower (or_empty entity_name)) src_name
            then 0.2 else 1)
         else 1)"

definition weighted_sum :: "real \<Rightarrow> real \<Rightarrow> real \<Rightarrow> real \<Rightarrow> real \<Rightarrow> real \<Rightarrow> real \<Rightarrow> real" where
  "weighted_sum entity_rel source_factor conf semantic trank token_rel recency =
     0.35 * entity_rel + 0.15 * source_factor + 0.15 * conf + 0.10 * semantic
     + 0.10 * trank + 0.10 * token_rel + 0.05 * recency"

record ranked_item = item +
  enr_recency_score :: real
  enr_source_quality :: real
  enr_token_relevance :: real
  enr_semantic_score :: real
  enr_entity_relevance :: real
  enr_rank_score :: real

text \<open>The body of the loop \<open>for item in items\<close>: the item with its scores.\<close>

definition score_item :: "real \<Rightarrow> query_context \<Rightarrow> item \<Rightarrow> ranked_item" where
  "score_item now qc it =
     (let conf = get_float (confidence it);
          trank = get_float (text_rank it);
          recency = recency_score now (get (created_at it));
          source_factor = source_quality_factor (get (source_name it)) (get (evidence_ref it));
          token_rel = token_relevance (tokens qc) (get (insight it)) (get (recommendation it));
          semantic = get_float (similarity_score it);
          entity_rel = entity_relevance (ticker qc) (entity qc) it;
          rank_score = weighted_sum entity_rel source_factor conf semantic trank token_rel recency
                       * (critic_factor it * sector_penalty qc it * pollution_penalty (entity qc) it)
      in item.extend it
           (ranked_item.fields (py_round recency 4) (py_round source_factor 4)
              (py_round token_rel 4) (py_round semantic 4) entity_rel (py_round rank_score 4)))"

text \<open>
  The dictionary \<open>seen\<close> of the deduplication, in insertion order: assigning to a key that
  is present keeps its place.
\<close>

fun dict_set :: "'k \<Rightarrow> 'v \<Rightarrow> ('k \<times> 'v) list \<Rightarrow> ('k \<times> 'v) list" where
  "dict_set k v [] = [(k, v)]"
| "dict_set k v (p # ps) = (if fst p = k then (k, v) # ps else p # dict_set k v ps)"

definition dedup_key :: "(string \<Rightarrow> string) \<Rightarrow> ranked_item \<Rightarrow> string" where
  "dedup_key md5_hex r =
     (let insight_text = lower (strip (py_slice (or_empty (get (insight r))) 0 200));
          src = py_str (get_default (source_name r) [])
      in src @ ''::'' @ md5_hex insight_text)"

fun dedup_loop :: "(string \<Rightarrow> string) \<Rightarrow> ranked_item list \<Rightarrow> (string \<times> ranked_item) list
    \<Rightarrow> (string \<times> ranked_item) list" where
  "dedup_loop md5_hex [] seen = seen"
| "dedup_loop md5_hex (r # rs) seen =
     (let k = dedup_key md5_hex r
      in dedup_loop md5_hex rs
           (case map_of seen k of
              None \<Rightarrow> dict_set k r seen
            | Some old \<Rightarrow> (if enr_rank_score old < enr_rank_score r then dict_set k r seen else seen)))"

definition sort_desc :: "ranked_item list \<Rightarrow> ranked_item list" where
  "sort_desc rs = sort_key (\<lambda>r. - enr_rank_score r) rs"

text \<open>
  \<open>rank_items clock md5_hex items qc\<close>: \<open>clock i\<close> is the reading of the clock when item
  \<open>i\<close> is scored, \<open>md5_hex\<close> is \<open>hashlib.md5(s.encode()).hexdigest()\<close>.
\<close>

definition rank_items :: "(nat \<Rightarrow> real) \<Rightarrow> (string \<Rightarrow> string) \<Rightarrow> item list \<Rightarrow> query_context
    \<Rightarrow> ranked_item list" where
  "rank_items clock md5_hex items qc =
     (let scored = map (\<lambda>(i, it). score_item (clock i) qc it) (enumerate 0 items);
          ranked = sort_desc scored;
          relevant = filter (\<lambda>r. 0.3 < enr_entity_relevance r) ranked;
          ranked' = (if 3 \<le> length relevant then relevant else ranked);
          seen = dedup_loop md5_hex ranked' []
      in sort_desc (map snd seen))"

text \<open>A sample item and query context, used to run the definitions on concrete data.\<close>

definition sample_item :: item where
  "sample_item =
     \<lparr>source_name = Val ''Reuters'', insight = Val ''Apple beats estimates'', recommendation = Absent,
      evidence_ref = Absent, confidence = Val 0.6, text_rank = Absent, similarity_score = Absent,
      created_at = Absent, critic_status = Absent, threat_level = Absent\<rparr>"

definition sample_context :: query_context where
  "sample_context =
     \<lparr>tokens = [''apple''], ticker = Some ''AAPL'', entity = Some ''Apple'', entity_record = None,
        timeframe = ''current'', intent = ''general''\<rparr>"

section \<open>core/entities.py: the coalescing upsert\<close>

text \<open>
  The table \<open>entities\<close>: its rows by ticker (the column is \<open>UNIQUE\<close>) and the sequence of
  the \<open>SERIAL\<close> key. The nullable text columns are options.
\<close>

record entities_table =
  ent_rows :: "string \<rightharpoonup> entity_row"
  ent_next_id :: nat

text \<open>The keyword arguments of \<open>_upsert_entity\<close>.\<close>

record entity_args =
  a_name :: string
  a_ticker :: string
  a_cik :: string
  a_sector :: string
  a_industry :: string
  a_exchange :: string
  a_entity_type :: string
  a_aliases :: "string list option"

text \<open>\<open>COALESCE(NULLIF(excluded, ''), existing)\<close> on a nullable text column.\<close>

definition coalesce_nullif :: "string \<Rightarrow> string option \<Rightarrow> string option" where
  "coalesce_nullif excluded existing = (if excluded = [] then existing else Some excluded)"

text \<open>
  \<open>upsert_entity now a tbl\<close> is the statement \<open>INSERT ... ON CONFLICT (ticker) DO UPDATE ...
  RETURNING *\<close> run at time \<open>now\<close>: the returned row and the table after it. The sequence
  advances also when the insert turns into an update.
\<close>

definition upsert_entity :: "real \<Rightarrow> entity_args \<Rightarrow> entities_table \<Rightarrow> entity_row \<times> entities_table" where
  "upsert_entity now a tbl =
     (let alias_json = (case a_aliases a of None \<Rightarrow> [] | Some xs \<Rightarrow> xs);
          row = (case ent_rows tbl (a_ticker a) of
                   None \<Rightarrow>
                     \<lparr>e_id = ent_next_id tbl, e_name = a_name a, e_ticker = a_ticker a,
                      e_cik = Some (a_cik a), e_sector = Some (a_sector a),
                      e_industry = Some (a_industry a), e_exchange = Some (a_exchange a),
                      e_entity_type = a_entity_type a, e_aliases = alias_json,
                      e_created_at = now, e_updated_at = now\<rparr>
                 | Some old \<Rightarrow>
                     old\<lparr>e_name := (if a_name a = [] then e_name old else a_name a),
                         e_cik := coalesce_nullif (a_cik a) (e_cik old),
                         e_sector := coalesce_nullif (a_sector a) (e_sector old),
                         e_industry := coalesce_nullif (a_industry a) (e_industry old),
                         e_exchange := coalesce_nullif (a_exchange a) (e_exchange old),
                         e_aliases := alias_json,
                         e_updated_at := now\<rparr>)
      in (row, \<lparr>ent_rows = (ent_rows tbl)(a_ticker a \<mapsto> row), ent_next_id = Suc (ent_next_id tbl)\<rparr>))"

text \<open>The second call of the claim: the same ticker, every other field empty.\<close>

definition empty_args :: "string \<Rightarrow> entity_args" where
  "empty_args tick =
     \<lparr>a_name = [], a_ticker = tick, a_cik = [], a_sector = [], a_industry = [],
      a_exchange = [], a_entity_type = ''company'', a_aliases = None\<rparr>"

definition sample_args :: entity_args where
  "sample_args =
     \<lparr>a_name = ''Apple Inc.'', a_ticker = ''AAPL'', a_cik = ''0000320193'', a_sector = ''Technology'',
      a_industry = ''Consumer Electronics'', a_exchange = ''NMS'', a_entity_type = ''company'',
      a_aliases = Some [''apple'', ''apple inc.'', ''aapl'']\<rparr>"

definition empty_table :: entities_table where
  "empty_table = \<lparr>ent_rows = Map.empty, ent_next_id = 1\<rparr>"

section \<open>core/db/financials.py: upsert_financial_period\<close>

text \<open>
  A row of \<open>financial_periods\<close>; the four JSONB columns are objects, maps from keys to
  values of any type \<open>'v\<close>. The table is keyed by its unique constraint
  \<open>(ticker, period_type, period_end_date, source_provider)\<close>.
\<close>

record 'v financial_period =
  fp_entity_id :: "int option"
  fp_ticker :: string
  fp_period_type :: string
  fp_period_end_date :: string
  fp_fiscal_year :: "int option"
  fp_fiscal_quarter :: "int option"
  fp_source_provider :: string
  income_statement :: "string \<rightharpoonup> 'v"
  balance_sheet :: "string \<rightharpoonup> 'v"
  cash_flow :: "string \<rightharpoonup> 'v"
  key_metrics :: "string \<rightharpoonup> 'v"

type_synonym period_key = "string \<times> string \<times> string \<times> string"

text \<open>The keyword arguments of \<open>upsert_financial_period\<close>; a statement map may be \<open>None\<close>.\<close>

record 'v period_args =
  pa_entity_id :: "int option"
  pa_ticker :: string
  pa_period_type :: string
  pa_period_end_date :: string
  pa_fiscal_year :: "int option"
  pa_fiscal_quarter :: "int option"
  pa_source_provider :: string
  pa_income_statement :: "(string \<rightharpoonup> 'v) option"
  pa_balance_sheet :: "(string \<rightharpoonup> 'v) option"
  pa_cash_flow :: "(string \<rightharpoonup> 'v) option"
  pa_key_metrics :: "(string \<rightharpoonup> 'v) option"

text \<open>\<open>x or {}\<close> on a dictionary or \<open>None\<close>.\<close>

definition or_empty_dict :: "(string \<rightharpoonup> 'v) option \<Rightarrow> (string \<rightharpoonup> 'v)" where
  "or_empty_dict x = (case x of None \<Rightarrow> Map.empty | Some m \<Rightarrow> m)"

text \<open>\<open>COALESCE(excluded, existing)\<close> on a nullable column.\<close>

definition coalesce :: "'a option \<Rightarrow> 'a option \<Rightarrow> 'a option" where
  "coalesce excluded existing = (case excluded of None \<Rightarrow> existing | Some v \<Rightarrow> Some v)"

text \<open>
  The \<open>CASE\<close> of the update, on one JSONB column: the stored object when the incoming one
  is \<open>{}\<close>, else \<open>stored || incoming\<close>, where the keys of the right operand win.
\<close>

definition deep_merge :: "(string \<rightharpoonup> 'v) \<Rightarrow> (string \<rightharpoonup> 'v) \<Rightarrow> (string \<rightharpoonup> 'v)" where
  "deep_merge existing excluded = (if excluded = Map.empty then existing else existing ++ excluded)"

definition period_key_of :: "'v period_args \<Rightarrow> period_key" where
  "period_key_of a = (pa_ticker a, pa_period_type a, pa_period_end_date a, pa_source_provider a)"

definition upsert_financial_period ::
  "'v period_args \<Rightarrow> (period_key \<rightharpoonup> 'v financial_period)
     \<Rightarrow> 'v financial_period \<times> (period_key \<rightharpoonup> 'v financial_period)" where
  "upsert_financial_period a tbl =
     (let row = (case tbl (period_key_of a) of
                   None \<Rightarrow>
                     \<lparr>fp_entity_id = pa_entity_id a, fp_ticker = pa_ticker a,
                      fp_period_type = pa_period_type a, fp_period_end_date = pa_period_end_date a,
                      fp_fiscal_year = pa_fiscal_year a, fp_fiscal_quarter = pa_fiscal_quarter a,
                      fp_source_provider = pa_source_provider a,
                      income_statement = or_empty_dict (pa_income_statement a),
                      balance_sheet = or_empty_dict (pa_balance_sheet a),
                      cash_flow = or_empty_dict (pa_cash_flow a),
                      key_metrics = or_empty_dict (pa_key_metrics a)\<rparr>
                 | Some old \<Rightarrow>
                     old\<lparr>fp_entity_id := coalesce (pa_entity_id a) (fp_entity_id old),
                         fp_fiscal_year := coalesce (pa_fiscal_year a) (fp_fiscal_year old),
                         fp_fiscal_quarter := coalesce (pa_fiscal_quarter a) (fp_fiscal_quarter old),
                         income_statement :=
                           deep_merge (income_statement old) (or_empty_dict (pa_income_statement a)),
                         balance_sheet :=
                           deep_merge (balance_sheet old) (or_empty_dict (pa_balance_sheet a)),
                         cash_flow := deep_merge (cash_flow old) (or_empty_dict (pa_cash_flow a)),
                         key_metrics :=
                           deep_merge (key_metrics old) (or_empty_dict (pa_key_metrics a))\<rparr>)
      in (row, tbl(period_key_of a \<mapsto> row)))"

definition sample_period :: "real financial_period" where
  "sample_period =
     \<lparr>fp_entity_id = Some 7, fp_ticker = ''AAPL'', fp_period_type = ''quarterly'',
      fp_period_end_date = ''2024-03-30'', fp_fiscal_year = Some 2024, fp_fiscal_quarter = Some 2,
      fp_source_provider = ''fmp'',
      income_statement = [''revenue'' \<mapsto> 100, ''eps'' \<mapsto> 2],
      balance_sheet = [''assets'' \<mapsto> 300], cash_flow = Map.empty, key_metrics = Map.empty\<rparr>"

definition sample_period_args :: "real period_args" where
  "sample_period_args =
     \<lparr>pa_entity_id = None, pa_ticker = ''AAPL'', pa_period_type = ''quarterly'',
      pa_period_end_date = ''2024-03-30'', pa_fiscal_year = None, pa_fiscal_quarter = None,
      pa_source_provider = ''fmp'',
      pa_income_statement = Some [''revenue'' \<mapsto> 120],
      pa_balance_sheet = None, pa_cash_flow = Some Map.empty, pa_key_metrics = None\<rparr>"

definition sample_periods :: "period_key \<rightharpoonup> real financial_period" where
  "sample_periods = [(''AAPL'', ''quarterly'', ''2024-03-30'', ''fmp'') \<mapsto> sample_period]"

section \<open>connectors/providers/base_provider.py: the daily budget\<close>

text \<open>
  The clock of the process: the time in seconds since the epoch and the offset of the
  local time zone. \<open>date_today\<close> is \<open>date.today()\<close>, the local calendar date, as a day
  number (its \<open>isoformat()\<close> is one string per day); \<open>utc_date\<close> is the date in UTC.
\<close>

record clock =
  utc_seconds :: int
  utc_offset :: int

definition date_today :: "clock \<Rightarrow> int" where
  "date_today c = (utc_seconds c + utc_offset c) div 86400"


text \<open>
  A provider instance with the three attributes of \<open>BaseProvider\<close>; \<open>last_reset_date\<close> is
  \<open>None\<close> for the initial empty string. \<open>new_provider\<close> is the construction of an instance:
  it starts from the class attributes, \<open>_calls_today = 0\<close> and \<open>_last_reset_date = ""\<close>.
\<close>

record provider =
  provider_name :: string
  daily_limit :: int
  calls_today :: int
  last_reset_date :: "int option"

definition new_provider :: "string \<Rightarrow> int \<Rightarrow> provider" where
  "new_provider name limit =
     \<lparr>provider_name = name, daily_limit = limit, calls_today = 0, last_reset_date = None\<rparr>"

definition rate_limit_ok :: "clock \<Rightarrow> provider \<Rightarrow> bool \<times> provider" where
  "rate_limit_ok c p =
     (if daily_limit p \<le> 0 then (True, p)
      else (let today = date_today c;
                p' = (if last_reset_date p \<noteq> Some today
                      then p\<lparr>calls_today := 0, last_reset_date := Some today\<rparr> else p)
            in (calls_today p' < daily_limit p', p')))"


section \<open>core/source_discovery.py: run_full_enrichment\<close>

record provider_result =
  pr_provider :: string
  pr_data_type :: string
  pr_records_stored :: int
  pr_success :: bool
  pr_error :: string

text \<open>What \<open>fetch_company_data\<close> does: it returns its results or raises.\<close>

datatype fetch_outcome = Returns "provider_result list" | Raises string

record run_entry =
  re_provider :: string
  re_data_type :: string
  re_records_stored :: int
  re_success :: bool
  re_error :: string

record entity_summary =
  se_id :: nat
  se_name :: string
  se_ticker :: string
  se_cik :: "string option"
  se_sector :: "string option"

record 'c summary =
  sm_entity :: "entity_summary option"
  providers_run :: "run_entry list"
  total_records :: int
  rss_sources_discovered :: nat
  sm_coverage :: "'c option"

definition add_result :: "'c summary \<Rightarrow> provider_result \<Rightarrow> 'c summary" where
  "add_result s r =
     s\<lparr>providers_run := providers_run s @
          [\<lparr>re_provider = pr_provider r, re_data_type = pr_data_type r,
            re_records_stored = pr_records_stored r, re_success = pr_success r,
            re_error = pr_error r\<rparr>],
       total_records := total_records s + pr_records_stored r\<rparr>"

definition add_failure :: "'c summary \<Rightarrow> string \<Rightarrow> string \<Rightarrow> 'c summary" where
  "add_failure s name msg =
     s\<lparr>providers_run := providers_run s @
          [\<lparr>re_provider = name, re_data_type = ''all'', re_records_stored = 0,
            re_success = False, re_error = msg\<rparr>]\<rparr>"

text \<open>
  The loop \<open>for provider in providers\<close>. Each provider comes with the reading of the clock
  at its \<open>rate_limit_ok()\<close>; \<open>fetch\<close> is \<open>fetch_company_data\<close>. The state is the summary
  together with the names of the providers whose \<open>fetch_company_data\<close> was invoked, in
  order.
\<close>

fun dispatch_providers :: "(provider \<Rightarrow> fetch_outcome) \<Rightarrow> (clock \<times> provider) list
    \<Rightarrow> 'c summary \<times> string list \<Rightarrow> 'c summary \<times> string list" where
  "dispatch_providers fetch [] st = st"
| "dispatch_providers fetch ((c, p) # ps) (s, invoked) =
     (case rate_limit_ok c p of
        (False, p') \<Rightarrow> dispatch_providers fetch ps (s, invoked)
      | (True, p') \<Rightarrow>
          (case fetch p' of
             Returns results \<Rightarrow>
               dispatch_providers fetch ps (foldl add_result s results, invoked @ [provider_name p'])
           | Raises msg \<Rightarrow>
               dispatch_providers fetch ps
                 (add_failure s (provider_name p') msg, invoked @ [provider_name p'])))"

text \<open>The provider classes in the order of \<open>_get_configured_providers\<close>, with their
  \<open>_daily_limit\<close>; the function builds a new instance of each configured one.\<close>

definition provider_classes :: "(string \<times> int) list" where
  "provider_classes =
     [(''sec_edgar'', 0), (''fmp'', 250), (''alpha_vantage'', 25), (''fred'', 0), (''ddg'', 0),
      (''reddit'', 0), (''finviz'', 0), (''polygon'', 0), (''cboe'', 0), (''finra'', 0)]"

definition get_configured_providers :: "(string \<Rightarrow> bool) \<Rightarrow> provider list" where
  "get_configured_providers is_configured =
     map (\<lambda>(name, limit). new_provider name limit)
       (filter (\<lambda>(name, limit). is_configured name) provider_classes)"

text \<open>
  What \<open>run_full_enrichment\<close> gets from outside: the resolved entity, the number of
  discovered sources (without and with the resolved ticker), which providers are
  configured, what their fetches do, the clock at the check of the \<open>i\<close>-th provider, and
  the coverage (\<open>None\<close> when its update raises).
\<close>

record 'c enrichment_env =
  env_entity :: "entity_row option"
  env_rss_unresolved :: nat
  env_rss :: nat
  env_is_configured :: "string \<Rightarrow> bool"
  env_fetch :: "provider \<Rightarrow> fetch_outcome"
  env_clock :: "nat \<Rightarrow> clock"
  env_coverage :: "'c option"

definition run_full_enrichment :: "'c enrichment_env \<Rightarrow> 'c summary \<times> string list" where
  "run_full_enrichment env =
     (let summary = \<lparr>sm_entity = None, providers_run = [], total_records = 0,
                      rss_sources_discovered = 0, sm_coverage = None\<rparr>
      in case env_entity env of
           None \<Rightarrow> (summary\<lparr>rss_sources_discovered := env_rss_unresolved env\<rparr>, [])
         | Some e \<Rightarrow>
             (let summary1 = summary\<lparr>sm_entity := Some \<lparr>se_id = e_id e, se_name = e_name e,
                                        se_ticker = e_ticker e, se_cik = e_cik e,
                                        se_sector = e_sector e\<rparr>,
                                      rss_sources_discovered := env_rss env\<rparr>;
                  providers = get_configured_providers (env_is_configured env);
                  (summary2, invoked) =
                     dispatch_providers (env_fetch env)
                       (map (\<lambda>(i, p). (env_clock env i, p)) (enumerate 0 providers))
                       (summary1, [])
              in (summary2\<lparr>sm_coverage := env_coverage env\<rparr>, invoked)))"


section \<open>core/pipeline/enrichment.py: _build_scenarios\<close>

datatype py_error = TypeError | ValueError | PipelineError string

text \<open>A scenario is a dictionary parsed from the reply of the LLM, or built by the fallback.\<close>

record scenario =
  sc_name :: "string field"
  sc_probability :: "real field"
  sc_assumption :: "string field"
  sc_impact :: "string field"
  sc_trigger_signals :: "string list field"

text \<open>The decision dictionary that the pipelines build.\<close>

record decision =
  answer_summary :: string
  dc_confidence :: real
  risk_level :: string
  dc_recommendation :: string

text \<open>\<open>float(s.get("probability", 0.33))\<close>: \<open>float(None)\<close> raises.\<close>

definition probability_of :: "scenario \<Rightarrow> py_error + real" where
  "probability_of s = (case sc_probability s of Absent \<Rightarrow> Inr 0.33 | Null \<Rightarrow> Inl TypeError | Val p \<Rightarrow> Inr p)"

text \<open>\<open>sum(float(s.get("probability", 0.33)) for s in scenarios)\<close>, from the start value.\<close>

fun sum_probabilities :: "real \<Rightarrow> scenario list \<Rightarrow> py_error + real" where
  "sum_probabilities acc [] = Inr acc"
| "sum_probabilities acc (s # ss) =
     (case probability_of s of Inl e \<Rightarrow> Inl e | Inr p \<Rightarrow> sum_probabilities (acc + p) ss)"

definition setdefault :: "'a field \<Rightarrow> 'a \<Rightarrow> 'a field" where
  "setdefault f d = (case f of Absent \<Rightarrow> Val d | _ \<Rightarrow> f)"

text \<open>The body of the loop that normalises one scenario; the sum was computed before, so
  the probability can be read.\<close>

definition normalize_scenario :: "real \<Rightarrow> scenario \<Rightarrow> scenario" where
  "normalize_scenario total_prob s =
     s\<lparr>sc_probability :=
          Val (py_round ((case probability_of s of Inr p \<Rightarrow> p | Inl e \<Rightarrow> 0) / total_prob) 3),
       sc_trigger_signals := setdefault (sc_trigger_signals s) [],
       sc_assumption := setdefault (sc_assumption s) [],
       sc_impact := setdefault (sc_impact s) []\<rparr>"

definition fallback_scenarios :: "real \<Rightarrow> string \<Rightarrow> scenario list" where
  "fallback_scenarios base_confidence top_source =
     (let bull_raw = min (base_confidence + 0.12) 0.92;
          base_raw = max (min base_confidence 0.8) 0.1;
          bear_raw = max (1.0 - base_confidence + 0.05) 0.1;
          total = bull_raw + base_raw + bear_raw;
          bull_prob = py_round (bull_raw / total) 3;
          base_prob = py_round (base_raw / total) 3;
          bear_prob = py_round (max (1.0 - bull_prob - base_prob) 0.0) 3
      in [\<lparr>sc_name = Val ''bull'', sc_probability = Val bull_prob,
           sc_assumption = Val ''Positive execution and demand signals hold across latest sources.'',
           sc_impact = Val (''Upside scenario if momentum from '' @ top_source @ '' continues.''),
           sc_trigger_signals =
             Val [''accelerating revenue growth'', ''margin expansion'', ''positive narrative shift'']\<rparr>,
          \<lparr>sc_name = Val ''base'', sc_probability = Val base_prob,
           sc_assumption = Val ''Current trajectory persists without major external shocks.'',
           sc_impact = Val ''Moderate performance with manageable risk and incremental changes.'',
           sc_trigger_signals =
             Val [''stable guidance'', ''mixed but non-deteriorating sentiment'',
                  ''controlled risk levels'']\<rparr>,
          \<lparr>sc_name = Val ''bear'', sc_probability = Val bear_prob,
           sc_assumption = Val ''Competitive pressure or macro events weaken current momentum.'',
           sc_impact =
             Val ''Downside risk rises; defensive posture and tighter monitoring required.'',
           sc_trigger_signals =
             Val [''negative earnings revisions'', ''rising risk indicators'',
                  ''narrative deterioration'']\<rparr>])"

text \<open>
  \<open>build_scenarios decision evidence llm_scenarios\<close>: \<open>llm_scenarios\<close> is what
  \<open>generate_scenarios\<close> returns, \<open>None\<close> when the LLM declines or its reply does not parse.
\<close>

definition build_scenarios :: "decision \<Rightarrow> 'a item_scheme list \<Rightarrow> scenario list option
    \<Rightarrow> py_error + scenario list" where
  "build_scenarios dec evidence llm_scenarios =
     (let base_confidence = (if dc_confidence dec = 0 then 0.5 else dc_confidence dec);
          top_source = (case evidence of [] \<Rightarrow> ''current evidence''
                        | it # _ \<Rightarrow> py_str (get_default (source_name it) ''current evidence''))
      in case llm_scenarios of
           None \<Rightarrow> Inr (fallback_scenarios base_confidence top_source)
         | Some ss \<Rightarrow>
             (if ss \<noteq> [] \<and> length ss = 3 then
                (case sum_probabilities 0 ss of
                   Inl e \<Rightarrow> Inl e
                 | Inr total_prob \<Rightarrow>
                     (if 0 < total_prob then Inr (map (normalize_scenario total_prob) ss)
                      else Inr ss))
              else Inr (fallback_scenarios base_confidence top_source)))"





section \<open>core/pipeline/query.py: _parse_query\<close>

text \<open>\<open>join sep parts\<close> is \<open>sep.join(parts)\<close>.\<close>

fun join :: "string \<Rightarrow> string list \<Rightarrow> string" where
  "join sep [] = []"
| "join sep [p] = p"
| "join sep (p # q # ps) = p @ sep @ join sep (q # ps)"

definition any_in :: "string list \<Rightarrow> string list \<Rightarrow> bool" where
  "any_in keywords toks = (\<exists>k \<in> set keywords. k \<in> set toks)"

text \<open>\<open>parse_query resolved query_text\<close>: \<open>resolved\<close> is what \<open>resolve_entity\<close> returns,
  \<open>None\<close> also when it raises.\<close>

definition parse_query :: "entity_row option \<Rightarrow> string \<Rightarrow> query_context" where
  "parse_query resolved query_text =
     (let lowered = strip (lower query_text);
          toks = filter (\<lambda>t. t \<noteq> [])
                   (split_ws (map (\<lambda>c. if c = CHR '','' then CHR '' '' else c) lowered));
          tf = (if any_in [''quarter'', ''q1'', ''q2'', ''q3'', ''q4''] toks then ''quarter''
                else if any_in [''year'', ''annual'', ''yoy''] toks then ''year''
                else if any_in [''week'', ''today'', ''latest'', ''recent''] toks then ''recent''
                else ''current'');
          it = (if any_in [''risk'', ''threat'', ''exposure''] toks then ''risk''
                else if any_in [''growth'', ''revenue'', ''earnings'', ''profit'', ''margin''] toks
                then ''financial''
                else if any_in [''pricing'', ''competition'', ''market'', ''strategy''] toks
                then ''market''
                else ''general'');
          entity_name0 = (case split_ws query_text of [] \<Rightarrow> query_text | w # _ \<Rightarrow> w)
      in case resolved of
           None \<Rightarrow> \<lparr>tokens = toks, ticker = None, entity = Some entity_name0,
                     entity_record = None, timeframe = tf, intent = it\<rparr>
         | Some r \<Rightarrow> \<lparr>tokens = toks, ticker = Some (e_ticker r),
                       entity = Some (if e_name r = [] then entity_name0 else e_name r),
                       entity_record = Some r, timeframe = tf, intent = it\<rparr>)"

section \<open>core/pipeline/ranking.py: _detect_contradictions\<close>

definition threat_levels :: "'a item_scheme list \<Rightarrow> string option list" where
  "threat_levels its = map (\<lambda>it. get_default (threat_level it) ''low'') (take 8 its)"

definition mentions_any :: "string list \<Rightarrow> 'a item_scheme \<Rightarrow> bool" where
  "mentions_any ws it = (\<exists>w \<in> set ws. py_in w (lower (or_empty (get (recommendation it)))))"

text \<open>The contradictions found, by their \<open>type\<close>.\<close>

definition detect_contradictions :: "'a item_scheme list \<Rightarrow> string list" where
  "detect_contradictions its =
     (if Some ''high'' \<in> set (threat_levels its) \<and> Some ''low'' \<in> set (threat_levels its)
      then [''threat_level_conflict''] else [])
     @ (if (\<exists>it \<in> set (take 8 its).
              mentions_any [''act'', ''immediate'', ''respond'', ''accelerate'', ''launch''] it)
           \<and> (\<exists>it \<in> set (take 8 its).
              mentions_any [''monitor'', ''continue'', ''observe'', ''hold'', ''wait''] it)
        then [''recommendation_conflict''] else [])"

section \<open>core/pipeline/intelligence.py: the batch pipeline\<close>

text \<open>A value of the financial snapshot: a number or a string such as \<open>n/a\<close>.\<close>

datatype pyval = PNum real | PStr string

definition truthy :: "pyval option \<Rightarrow> bool" where
  "truthy v = (case v of None \<Rightarrow> False | Some (PNum x) \<Rightarrow> x \<noteq> 0 | Some (PStr s) \<Rightarrow> s \<noteq> [])"

record financials =
  fin_price :: "pyval option"
  fin_market_cap :: "pyval option"
  fin_trailing_pe :: "pyval option"
  fin_revenue_growth :: "pyval option"

text \<open>
  The formatting of numbers in the f-strings is a parameter: \<open>:.0%\<close>, \<open>:.1f\<close>, \<open>:.0f\<close>,
  \<open>str\<close> of a value and of an integer.
\<close>

record formatters =
  fmt_percent0 :: "real \<Rightarrow> string"
  fmt_fixed1 :: "real \<Rightarrow> string"
  fmt_fixed0 :: "real \<Rightarrow> string"
  fmt_value :: "pyval \<Rightarrow> string"
  fmt_nat :: "nat \<Rightarrow> string"

definition threat_rank :: "'a item_scheme \<Rightarrow> nat" where
  "threat_rank it =
     (let lvl = get_default (threat_level it) ''low''
      in if lvl = Some ''low'' then 1 else if lvl = Some ''medium'' then 2
         else if lvl = Some ''high'' then 3 else 1)"

text \<open>\<open>max(..., default=1)\<close> over the first five items.\<close>

definition max_threat :: "'a item_scheme list \<Rightarrow> nat" where
  "max_threat its = (case map threat_rank (take 5 its) of [] \<Rightarrow> 1 | x # xs \<Rightarrow> fold max xs x)"

definition risk_level_of :: "nat \<Rightarrow> string" where
  "risk_level_of m = (if 3 \<le> m then ''high'' else if m = 2 then ''medium'' else ''low'')"

definition confidence_sum :: "'a item_scheme list \<Rightarrow> real" where
  "confidence_sum its = sum_list (map (\<lambda>it. get_float (confidence it)) (take 5 its))"

text \<open>The em dash of the source, as its three bytes in UTF-8.\<close>

definition EM_DASH :: string where
  "EM_DASH = [CHR 0xE2, CHR 0x80, CHR 0x94]"

definition risk_prefix :: "string \<Rightarrow> string" where
  "risk_prefix risk =
     (if risk = ''high'' then ''Exercise caution '' @ EM_DASH @ '' ''
      else if risk = ''medium'' then ''Monitor closely '' @ EM_DASH @ '' '' else [])"

text \<open>The market capitalisation as a string; comparing a string with a number raises.\<close>

definition market_cap_str :: "formatters \<Rightarrow> pyval \<Rightarrow> py_error + string" where
  "market_cap_str fm v =
     (case v of
        PStr s \<Rightarrow> Inl TypeError
      | PNum mc \<Rightarrow>
          Inr (if 10 ^ 12 \<le> mc then ''$'' @ fmt_fixed1 fm (mc / 10 ^ 12) @ ''T''
               else if 10 ^ 9 \<le> mc then ''$'' @ fmt_fixed1 fm (mc / 10 ^ 9) @ ''B''
               else ''$'' @ fmt_fixed0 fm (mc / 10 ^ 6) @ ''M''))"

definition NO_EVIDENCE_SUMMARY :: string where
  "NO_EVIDENCE_SUMMARY = ''No strong evidence found for this query in current ingested intelligence.''"

definition NO_EVIDENCE_RECOMMENDATION :: string where
  "NO_EVIDENCE_RECOMMENDATION =
     ''Ingest additional relevant sources or broaden query terms before making a decision.''"

text \<open>
  \<open>summarize_decision fm query_text ranked_items fin llm_summary llm_rec\<close>: \<open>llm_summary\<close>
  and \<open>llm_rec\<close> are what \<open>generate_executive_summary\<close> and \<open>generate_recommendation\<close>
  return.
\<close>

definition summarize_decision :: "formatters \<Rightarrow> string \<Rightarrow> 'a item_scheme list \<Rightarrow> financials
    \<Rightarrow> string option \<Rightarrow> string option \<Rightarrow> py_error + decision" where
  "summarize_decision fm query_text ranked_items fin llm_summary llm_rec =
     (case ranked_items of
        [] \<Rightarrow> Inr \<lparr>answer_summary = NO_EVIDENCE_SUMMARY, dc_confidence = 0.25, risk_level = ''low'',
                    dc_recommendation = NO_EVIDENCE_RECOMMENDATION\<rparr>
      | first_item # _ \<Rightarrow>
          (let avg_confidence = confidence_sum ranked_items / real (min (length ranked_items) 5);
               risk = risk_level_of (max_threat ranked_items);
               cap = (if truthy (fin_price fin) \<and> truthy (fin_market_cap fin)
                      then (case fin_market_cap fin of
                              Some v \<Rightarrow> map_sum id Some (market_cap_str fm v) | None \<Rightarrow> Inr None)
                      else Inr None)
           in case (if or_empty llm_summary \<noteq> [] then Inr (or_empty llm_summary)
                    else (case cap of
                            Inl e \<Rightarrow> Inl e
                          | Inr cap_str \<Rightarrow>
                              Inr (join '' ''
                                ([''Analysis for '' @ [CHR 0x27] @ query_text @ [CHR 0x27] @ '': '']
                                 @ (if truthy (fin_price fin)
                                    then [''Current price $'' @ fmt_value fm (the (fin_price fin))]
                                         @ (case cap_str of None \<Rightarrow> []
                                            | Some c \<Rightarrow> [''(market cap '' @ c @ '').''])
                                    else [])
                                 @ (if truthy (fin_trailing_pe fin)
                                       \<and> fin_trailing_pe fin \<noteq> Some (PStr ''n/a'')
                                    then [''P/E '' @ fmt_value fm (the (fin_trailing_pe fin)) @ ''.'']
                                    else [])
                                 @ (if truthy (fin_revenue_growth fin)
                                       \<and> fin_revenue_growth fin \<noteq> Some (PStr ''n/a'')
                                    then [''Revenue growth ''
                                          @ fmt_value fm (the (fin_revenue_growth fin)) @ ''.'']
                                    else [])
                                 @ [''Based on '' @ fmt_nat fm (length ranked_items)
                                    @ '' evidence sources, overall risk is ''
                                    @ py_str (get_default (threat_level first_item) ''low'') @ ''.'']
                                 @ (if or_empty (get (insight first_item)) \<noteq> []
                                    then [''Top signal: ''
                                          @ py_slice (or_empty (get (insight first_item))) 0 150]
                                    else []))))) of
                Inl e \<Rightarrow> Inl e
              | Inr summary \<Rightarrow>
                  Inr \<lparr>answer_summary = summary, dc_confidence = py_round avg_confidence 3,
                       risk_level = risk,
                       dc_recommendation =
                         (if or_empty llm_rec \<noteq> [] then or_empty llm_rec
                          else risk_prefix risk
                               @ ''Evidence confidence is '' @ fmt_percent0 fm avg_confidence
                               @ '' across '' @ fmt_nat fm (min (length ranked_items) 5)
                               @ '' sources. ''
                               @ (if detect_contradictions ranked_items \<noteq> []
                                  then ''Contradictory signals detected; verify before acting.''
                                  else ''Review supporting evidence before making decisions.''))\<rparr>))"

text \<open>The result of \<open>generate_parallel_intelligence\<close>.\<close>

record llm_results =
  lr_executive_summary :: "string option"
  lr_recommendation :: "string option"
  lr_market_narrative :: "string option"
  lr_trend_analysis :: "string option"
  lr_scenarios :: "scenario list option"

record decision_card =
  card_recommendation :: string
  card_confidence :: real
  card_risk_level :: string

text \<open>The report, without the sections that are copied from the data-gathering steps.\<close>

record report =
  rp_query :: string
  executive_summary :: string
  rp_decision_card :: decision_card
  market_narrative :: string
  why_it_matters :: string
  rp_scenarios :: "scenario list"
  rp_contradictions :: "string list"

record batch_result =
  br_search_id :: nat
  br_query_context :: query_context
  br_report :: report
  br_evidence_count :: nat

text \<open>
  What a run of the batch pipeline gets from outside: the resolved entity, the candidates
  of the hybrid retrieval, the clock and the hash of the ranking, the financial snapshot,
  the result of the parallel LLM generation (\<open>None\<close> when it raises), the replies of the
  serial LLM calls of the fallback path, the id of the saved search, and the exception of
  a database or network call outside a \<open>try\<close> block, if one raises.
\<close>

record batch_env =
  be_resolved :: "entity_row option"
  be_candidates :: "item list"
  be_clock :: "nat \<Rightarrow> real"
  be_md5 :: "string \<Rightarrow> string"
  be_financials :: financials
  be_llm_results :: "llm_results option"
  be_serial_summary :: "string option"
  be_serial_recommendation :: "string option"
  be_serial_scenarios :: "scenario list option"
  be_search_id :: nat
  be_failure :: "py_error option"

text \<open>Step 7: the decision from the LLM results, or from the serial path.\<close>

definition build_decision :: "formatters \<Rightarrow> batch_env \<Rightarrow> string \<Rightarrow> ranked_item list
    \<Rightarrow> py_error + decision" where
  "build_decision fm env query_text top_evidence =
     (case be_llm_results env of
        Some lr \<Rightarrow>
          (if or_empty (lr_executive_summary lr) \<noteq> [] then
             (let avg_confidence =
                    confidence_sum top_evidence / real (max (min (length top_evidence) 5) 1);
                  risk = risk_level_of (max_threat top_evidence)
              in Inr \<lparr>answer_summary = or_empty (lr_executive_summary lr),
                      dc_confidence = py_round avg_confidence 3,
                      risk_level = risk,
                      dc_recommendation =
                        (if or_empty (lr_recommendation lr) \<noteq> [] then or_empty (lr_recommendation lr)
                         else risk_prefix risk
                              @ ''Evidence confidence is '' @ fmt_percent0 fm avg_confidence
                              @ '' across '' @ fmt_nat fm (min (length top_evidence) 5)
                              @ '' sources.'')\<rparr>)
           else summarize_decision fm query_text top_evidence (be_financials env)
                  (be_serial_summary env) (be_serial_recommendation env))
      | None \<Rightarrow> summarize_decision fm query_text top_evidence (be_financials env)
                  (be_serial_summary env) (be_serial_recommendation env))"

text \<open>Step 9: the scenarios of the LLM results, normalised as in \<open>_build_scenarios\<close>, or
  \<open>_build_scenarios\<close> itself.\<close>

definition batch_scenarios :: "batch_env \<Rightarrow> decision \<Rightarrow> ranked_item list \<Rightarrow> py_error + scenario list" where
  "batch_scenarios env dec top_evidence =
     (let from_llm = (case be_llm_results env of None \<Rightarrow> None | Some lr \<Rightarrow> lr_scenarios lr)
      in case from_llm of
           None \<Rightarrow> build_scenarios dec top_evidence (be_serial_scenarios env)
         | Some ss \<Rightarrow>
             (if ss \<noteq> [] \<and> length ss = 3 then
                (case sum_probabilities 0 ss of
                   Inl e \<Rightarrow> Inl e
                 | Inr total_prob \<Rightarrow>
                     (if 0 < total_prob then Inr (map (normalize_scenario total_prob) ss)
                      else Inr ss))
              else build_scenarios dec top_evidence (be_serial_scenarios env)))"

definition batch_narrative :: "batch_env \<Rightarrow> query_context \<Rightarrow> ranked_item list \<Rightarrow> string" where
  "batch_narrative env qc top_evidence =
     (let narrative = (case be_llm_results env of None \<Rightarrow> []
                       | Some lr \<Rightarrow> or_empty (lr_market_narrative lr))
      in if narrative \<noteq> [] then narrative
         else join '' ''
                ((if take 3 top_evidence \<noteq> []
                  then [''Signals cluster around ''
                        @ join '', '' (map (\<lambda>it. py_str (get_default (source_name it) ''unknown''))
                                         (take 3 top_evidence)) @ ''.'']
                  else [])
                 @ [''Query intent is interpreted as '' @ intent qc @ '' within ''
                    @ timeframe qc @ '' horizon.'']
                 @ (if top_evidence \<noteq> []
                    then [''Current intelligence indicates active movement that warrants monitored execution.'']
                    else [])))"

definition run_market_intelligence_query :: "formatters \<Rightarrow> batch_env \<Rightarrow> string \<Rightarrow> int
    \<Rightarrow> py_error + batch_result" where
  "run_market_intelligence_query fm env query_text limit =
     (case be_failure env of
        Some e \<Rightarrow> Inl e
      | None \<Rightarrow>
          (let qc = parse_query (be_resolved env) query_text;
               ranked = rank_items (be_clock env) (be_md5 env) (be_candidates env) qc;
               top_evidence = py_slice ranked 0 limit
           in case build_decision fm env query_text top_evidence of
                Inl e \<Rightarrow> Inl e
              | Inr dec \<Rightarrow>
                  (case batch_scenarios env dec top_evidence of
                     Inl e \<Rightarrow> Inl e
                   | Inr scenarios \<Rightarrow>
                       Inr \<lparr>br_search_id = be_search_id env,
                            br_query_context = qc,
                            br_report =
                              \<lparr>rp_query = query_text,
                               executive_summary = answer_summary dec,
                               rp_decision_card =
                                 \<lparr>card_recommendation = dc_recommendation dec,
                                  card_confidence = dc_confidence dec,
                                  card_risk_level = risk_level dec\<rparr>,
                               market_narrative = batch_narrative env qc top_evidence,
                               why_it_matters = dc_recommendation dec,
                               rp_scenarios = scenarios,
                               rp_contradictions = detect_contradictions top_evidence\<rparr>,
                            br_evidence_count = length top_evidence\<rparr>)))"

text \<open>\<open>llm_results.get("executive_summary")\<close> of step 7, empty when there is none.\<close>

definition parallel_summary :: "batch_env \<Rightarrow> string" where
  "parallel_summary env =
     (case be_llm_results env of None \<Rightarrow> [] | Some lr \<Rightarrow> or_empty (lr_executive_summary lr))"

definition sample_formatters :: formatters where
  "sample_formatters =
     \<lparr>fmt_percent0 = (\<lambda>x. ''0%''), fmt_fixed1 = (\<lambda>x. ''0.0''), fmt_fixed0 = (\<lambda>x. ''0''),
      fmt_value = (\<lambda>v. ''0''), fmt_nat = (\<lambda>n. ''0'')\<rparr>"

definition sample_batch_env :: "llm_results option \<Rightarrow> batch_env" where
  "sample_batch_env lr =
     \<lparr>be_resolved = None, be_candidates = [], be_clock = (\<lambda>i. 0), be_md5 = (\<lambda>s. s),
      be_financials = \<lparr>fin_price = None, fin_market_cap = None, fin_trailing_pe = None,
                        fin_revenue_growth = None\<rparr>,
      be_llm_results = lr, be_serial_summary = None, be_serial_recommendation = None,
      be_serial_scenarios = None, be_search_id = 1, be_failure = None\<rparr>"

definition sample_llm_results :: llm_results where
  "sample_llm_results =
     \<lparr>lr_executive_summary = Some ''Apple looks strong.'', lr_recommendation = None,
      lr_market_narrative = None, lr_trend_analysis = None, lr_scenarios = None\<rparr>"

section \<open>Properties of chunk_text\<close>

lemma length_strip_le: "length (strip s) \<le> length s"
proof -
  have "length (strip s) \<le> length (dropWhile py_isspace s)"
    unfolding strip_def using length_dropWhile_le [of py_isspace "rev (dropWhile py_isspace s)"]
    by simp
  also have "\<dots> \<le> length s" by (rule length_dropWhile_le)
  finally show ?thesis .
qed

lemma length_py_slice_le:
  assumes "0 \<le> i" "i \<le> j"
  shows "int (length (py_slice xs i j)) \<le> j - i"
  using assms by (auto simp: py_slice_def Let_def min_def)

lemma chunk_loop_returns:
  assumes "0 \<le> safe_overlap" "safe_overlap < safe_chunk_size" "0 \<le> start"
    and "\<forall>c \<in> set chunks. c \<noteq> [] \<and> int (length c) \<le> safe_chunk_size"
  shows "\<exists>r. chunk_loop text safe_chunk_size safe_overlap start chunks = Some r \<and>
             (\<forall>c \<in> set r. c \<noteq> [] \<and> int (length c) \<le> safe_chunk_size)"
  using assms(3,4)
proof (induction "nat (int (length text) - start)" arbitrary: start chunks rule: less_induct)
  case less
  define e where "e = min (start + safe_chunk_size) (int (length text))"
  define chunk where "chunk = strip (py_slice text start e)"
  define chunks' where "chunks' = (if chunk \<noteq> [] then chunks @ [chunk] else chunks)"
  have unfold: "chunk_loop text safe_chunk_size safe_overlap start chunks =
      (if start < int (length text) then
         (if e = int (length text) then Some chunks'
          else chunk_loop text safe_chunk_size safe_overlap (e - safe_overlap) chunks')
       else Some chunks)"
    by (subst chunk_loop.simps) (simp add: Let_def e_def chunk_def chunks'_def)
  show ?case
  proof (cases "start < int (length text)")
    case False
    with unfold less.prems show ?thesis by simp
  next
    case True
    have se: "start \<le> e" using assms(1,2) True by (simp add: e_def)
    have "int (length (py_slice text start e)) \<le> e - start"
      using less.prems(1) se by (rule length_py_slice_le)
    moreover have "e - start \<le> safe_chunk_size" by (simp add: e_def)
    moreover have "length chunk \<le> length (py_slice text start e)"
      unfolding chunk_def by (rule length_strip_le)
    ultimately have "int (length chunk) \<le> safe_chunk_size" by linarith
    with less.prems(2)
    have inv: "\<forall>c \<in> set chunks'. c \<noteq> [] \<and> int (length c) \<le> safe_chunk_size"
      by (auto simp: chunks'_def)
    show ?thesis
    proof (cases "e = int (length text)")
      case True
      with unfold \<open>start < int (length text)\<close> inv show ?thesis by simp
    next
      case False
      then have e_eq: "e = start + safe_chunk_size" by (simp add: e_def min_def split: if_splits)
      have step: "start < e - safe_overlap" using assms(2) e_eq by simp
      have "nat (int (length text) - (e - safe_overlap)) < nat (int (length text) - start)"
        using step True by linarith
      moreover have "0 \<le> e - safe_overlap" using step less.prems(1) by linarith
      ultimately have "\<exists>r. chunk_loop text safe_chunk_size safe_overlap (e - safe_overlap) chunks' = Some r \<and>
             (\<forall>c \<in> set r. c \<noteq> [] \<and> int (length c) \<le> safe_chunk_size)"
        using inv by (rule less.hyps)
      with unfold True False show ?thesis by simp
    qed
  qed
qed

text \<open>
  C10. \<open>chunk_text\<close> returns for every text, chunk size and overlap (the clamped chunk size
  is at least 100 and the clamped overlap lies in \<open>[0, safe_chunk_size - 1]\<close>, so the window
  start grows strictly in each iteration), and every chunk it returns is non-empty and at
  most \<open>max chunk_size 100\<close> characters long.
\<close>

theorem chunk_text_terminates_bounded:
  "\<exists>chunks. chunk_text text chunk_size overlap = Some chunks \<and>
     (\<forall>c \<in> set chunks. c \<noteq> [] \<and> int (length c) \<le> max chunk_size 100)"
proof (cases "text = []")
  case True
  then show ?thesis by (simp add: chunk_text_def)
next
  case False
  have "\<exists>r. chunk_loop text (max chunk_size 100) (min (max overlap 0) (max chunk_size 100 - 1)) 0 []
          = Some r \<and> (\<forall>c \<in> set r. c \<noteq> [] \<and> int (length c) \<le> max chunk_size 100)"
    by (rule chunk_loop_returns) auto
  with False show ?thesis by (simp add: chunk_text_def Let_def)
qed

theorem chunk_text_terminates_bounded_witness:
  "\<exists>chunks. chunk_text '' ab '' 0 500 = Some chunks \<and>
     (\<forall>c \<in> set chunks. c \<noteq> [] \<and> int (length c) \<le> max 0 100)"
  using chunk_text_terminates_bounded [of "'' ab ''" 0 500] by simp

section \<open>Properties of the ranking\<close>

lemma round_half_even_le: "x \<le> of_int k \<Longrightarrow> round_half_even x \<le> k"
proof -
  assume a: "x \<le> of_int k"
  show ?thesis
  proof (cases "x = of_int k")
    case True
    then show ?thesis by (simp add: round_half_even_def)
  next
    case False
    with a have "x < of_int k" by simp
    then have "\<lfloor>x\<rfloor> < k" by (simp add: floor_less_iff)
    then show ?thesis by (auto simp: round_half_even_def Let_def)
  qed
qed

lemma round_half_even_ge: "of_int k \<le> x \<Longrightarrow> k \<le> round_half_even x"
proof -
  assume "of_int k \<le> x"
  then have "k \<le> \<lfloor>x\<rfloor>" by (simp add: le_floor_iff)
  then show ?thesis by (auto simp: round_half_even_def Let_def)
qed

lemma py_round_le:
  assumes "x \<le> of_int k / 10 ^ n"
  shows "py_round x n \<le> of_int k / 10 ^ n"
proof -
  have "x * 10 ^ n \<le> of_int k" using assms by (simp add: pos_le_divide_eq)
  then have "round_half_even (x * 10 ^ n) \<le> k" by (rule round_half_even_le)
  then have "(of_int (round_half_even (x * 10 ^ n)) :: real) \<le> of_int k" by simp
  then show ?thesis unfolding py_round_def by (simp add: divide_right_mono)
qed

lemma py_round_ge:
  assumes "of_int k / 10 ^ n \<le> x"
  shows "of_int k / 10 ^ n \<le> py_round x n"
proof -
  have "of_int k \<le> x * 10 ^ n" using assms by (simp add: pos_divide_le_eq)
  then have "k \<le> round_half_even (x * 10 ^ n)" by (rule round_half_even_ge)
  then have "(of_int k :: real) \<le> of_int (round_half_even (x * 10 ^ n))" by simp
  then show ?thesis unfolding py_round_def by (simp add: divide_right_mono)
qed

lemma py_round_nonneg: "0 \<le> x \<Longrightarrow> 0 \<le> py_round x n"
  using py_round_ge [of 0 n x] by simp

lemma py_round_le_one: "x \<le> 1 \<Longrightarrow> py_round x n \<le> 1"
  using py_round_le [of x "10 ^ n" n] by simp

lemma hits_fraction: "0 \<le> real (length (filter P xs)) / real (length xs) \<and>
    real (length (filter P xs)) / real (length xs) \<le> 1"
proof -
  have "length (filter P xs) \<le> length xs" by (rule length_filter_le)
  then show ?thesis by (cases "xs = []") (simp_all add: divide_le_eq)
qed

lemma scaled_hits:
  assumes "0 \<le> c" "c \<le> 1"
  shows "0 \<le> c * (real (length (filter P xs)) / real (length xs)) \<and>
         c * (real (length (filter P xs)) / real (length xs)) \<le> 1"
proof -
  let ?q = "real (length (filter P xs)) / real (length xs)"
  have q: "0 \<le> ?q" "?q \<le> 1" using hits_fraction [of P xs] by simp_all
  have "0 \<le> c * ?q" using assms(1) q(1) by (rule mult_nonneg_nonneg)
  moreover have "c * ?q \<le> 1" using assms(2) q(1) q(2) by (rule mult_le_one)
  ultimately show ?thesis by simp
qed

lemma ticker_matching_range:
  assumes "0 \<le> s" "s \<le> 1"
  shows "0 \<le> ticker_matching t title text s \<and> ticker_matching t title text s \<le> 1"
  using assms unfolding ticker_matching_def by (simp add: max_def)

lemma name_in_title_range:
  assumes "0 \<le> s" "s \<le> 1"
  shows "0 \<le> name_in_title n ps title s \<and> name_in_title n ps title s \<le> 1"
proof -
  let ?v = "0.85 * (real (length (filter (\<lambda>p. py_in p title) ps)) / real (length ps))"
  have v: "0 \<le> ?v" "?v \<le> 1" using scaled_hits [of "0.85" "\<lambda>p. py_in p title" ps] by simp_all
  have m: "0 \<le> max s ?v" "max s ?v \<le> 1" using assms v by (simp_all add: max_def)
  have m2: "0 \<le> max s 0.95" "max s 0.95 \<le> 1" using assms by (simp_all add: max_def)
  show ?thesis unfolding name_in_title_def Let_def using assms m m2 by presburger
qed

lemma name_in_body_range:
  assumes "0 \<le> s" "s \<le> 1"
  shows "0 \<le> name_in_body ps text s \<and> name_in_body ps text s \<le> 1"
proof -
  let ?v = "0.4 * (real (length (filter (\<lambda>p. py_in p text) ps)) / real (length ps))"
  have v: "0 \<le> ?v" "?v \<le> 1" using scaled_hits [of "0.4" "\<lambda>p. py_in p text" ps] by simp_all
  have m: "0 \<le> max s ?v" "max s ?v \<le> 1" using assms v by (simp_all add: max_def)
  show ?thesis unfolding name_in_body_def Let_def using assms m by presburger
qed

lemma entity_relevance_range: "0 \<le> entity_relevance tick nm it \<and> entity_relevance tick nm it \<le> 1"
proof (cases "or_empty tick = [] \<and> or_empty nm = []")
  case True
  then show ?thesis by (simp add: entity_relevance_def)
next
  case False
  obtain s where s: "entity_relevance tick nm it = py_round s 4" "0 \<le> s" "s \<le> 1"
  proof -
    let ?title = "lower (or_empty (get (source_name it)))"
    let ?text = "?title @ '' '' @ lower (or_empty (get (insight it))) @ '' '' @ lower (or_empty (get (evidence_ref it)))"
    let ?parts = "name_parts_of (lower (or_empty nm))"
    let ?s1 = "ticker_matching (lower (or_empty tick)) ?title ?text 0"
    let ?s2 = "name_in_title (lower (or_empty nm)) ?parts ?title ?s1"
    let ?s3 = "name_in_body ?parts ?text ?s2"
    have r1: "0 \<le> ?s1 \<and> ?s1 \<le> 1" by (rule ticker_matching_range) simp_all
    then have r2: "0 \<le> ?s2 \<and> ?s2 \<le> 1" by (intro name_in_title_range) simp_all
    then have r3: "0 \<le> ?s3 \<and> ?s3 \<le> 1" by (intro name_in_body_range) simp_all
    have "entity_relevance tick nm it = py_round ?s3 4"
      using False unfolding entity_relevance_def Let_def by presburger
    with r3 show ?thesis using that by blast
  qed
  show ?thesis using s py_round_nonneg [of s 4] py_round_le_one [of s 4] by simp
qed

lemma dict_set_values: "snd ` set (dict_set k v ps) \<subseteq> insert v (snd ` set ps)"
  by (induction ps) auto

lemma dedup_loop_values: "snd ` set (dedup_loop h rs seen) \<subseteq> set rs \<union> snd ` set seen"
proof (induction rs arbitrary: seen)
  case Nil
  then show ?case by simp
next
  case (Cons r rs)
  define k where "k = dedup_key h r"
  define seen' where "seen' = (case map_of seen k of None \<Rightarrow> dict_set k r seen
      | Some old \<Rightarrow> (if enr_rank_score old < enr_rank_score r then dict_set k r seen else seen))"
  have step: "dedup_loop h (r # rs) seen = dedup_loop h rs seen'"
    unfolding k_def seen'_def by (simp add: Let_def)
  have "snd ` set seen' \<subseteq> insert r (snd ` set seen)"
    using dict_set_values [of k r seen] unfolding seen'_def by (auto split: option.splits)
  then have "set rs \<union> snd ` set seen' \<subseteq> set (r # rs) \<union> snd ` set seen"
    by auto
  with Cons.IH [of seen']
  have "snd ` set (dedup_loop h rs seen') \<subseteq> set (r # rs) \<union> snd ` set seen"
    by (rule subset_trans)
  then show ?case unfolding step .
qed

lemma rank_items_scored:
  assumes "r \<in> set (rank_items clock h items qc)"
  shows "\<exists>i it. it \<in> set items \<and> r = score_item (clock i) qc it"
proof -
  define scored where "scored = map (\<lambda>(i, it). score_item (clock i) qc it) (enumerate 0 items)"
  define ranked where "ranked = sort_desc scored"
  define relevant where "relevant = filter (\<lambda>r. 0.3 < enr_entity_relevance r) ranked"
  define ranked' where "ranked' = (if 3 \<le> length relevant then relevant else ranked)"
  have "rank_items clock h items qc = sort_desc (map snd (dedup_loop h ranked' []))"
    unfolding rank_items_def Let_def scored_def ranked_def relevant_def ranked'_def ..
  with assms have "r \<in> snd ` set (dedup_loop h ranked' [])"
    by (simp add: sort_desc_def)
  then have "r \<in> set ranked'" using dedup_loop_values [of h ranked' "[]"] by auto
  then have "r \<in> set ranked" by (auto simp: ranked'_def relevant_def split: if_splits)
  then have "r \<in> set scored" by (simp add: ranked_def sort_desc_def)
  then obtain i it where "(i, it) \<in> set (enumerate 0 items)" "r = score_item (clock i) qc it"
    unfolding scored_def by auto
  moreover from this have "it \<in> set items" by (auto simp: in_set_enumerate_eq)
  ultimately show ?thesis by blast
qed




lemma py_in_iff: "py_in sub s \<longleftrightarrow> (\<exists>ps ss. s = ps @ sub @ ss)"
proof (induction s)
  case Nil
  then show ?case by auto
next
  case (Cons c cs)
  show ?case
  proof
    assume "py_in sub (c # cs)"
    then consider "prefix sub (c # cs)" | "py_in sub cs" by auto
    then show "\<exists>ps ss. c # cs = ps @ sub @ ss"
    proof cases
      case 1
      then obtain ss where "c # cs = sub @ ss" by (auto simp: prefix_def)
      then have "c # cs = [] @ sub @ ss" by simp
      then show ?thesis by blast
    next
      case 2
      with Cons.IH obtain ps ss where "cs = ps @ sub @ ss" by blast
      then have "c # cs = (c # ps) @ sub @ ss" by simp
      then show ?thesis by blast
    qed
  next
    assume "\<exists>ps ss. c # cs = ps @ sub @ ss"
    then obtain ps ss where e: "c # cs = ps @ sub @ ss" by blast
    show "py_in sub (c # cs)"
    proof (cases ps)
      case Nil
      with e have "prefix sub (c # cs)" by (simp add: prefix_def)
      then show ?thesis by simp
    next
      case (Cons p ps')
      with e have "cs = ps' @ sub @ ss" by simp
      with Cons.IH have "py_in sub cs" by blast
      then show ?thesis by simp
    qed
  qed
qed

lemma lower_append: "lower (a @ b) = lower a @ lower b"
  by (simp add: lower_def)

lemma prefix_py_in_lower:
  assumes "prefix p s"
  shows "py_in (lower p) (lower s)"
proof -
  from assms obtain ss where "s = p @ ss" by (auto simp: prefix_def)
  then have "lower s = [] @ lower p @ lower ss" by (simp add: lower_append)
  then show ?thesis unfolding py_in_iff by blast
qed

lemma score_item_rank_score:
  "enr_rank_score (score_item now qc it) =
     py_round (weighted_sum (entity_relevance (ticker qc) (entity qc) it)
                 (source_quality_factor (get (source_name it)) (get (evidence_ref it)))
                 (get_float (confidence it)) (get_float (similarity_score it))
                 (get_float (text_rank it))
                 (token_relevance (tokens qc) (get (insight it)) (get (recommendation it)))
                 (recency_score now (get (created_at it)))
               * (critic_factor it * sector_penalty qc it * pollution_penalty (entity qc) it)) 4"
  by (simp add: score_item_def Let_def item.extend_def ranked_item.fields_def)

text \<open>
  C2 (as amended). The pollution multiplier of an item is 0.2 exactly when its lowercased
  \<open>source_name\<close> contains \<open>google news:\<close> or \<open>yahoo finance news:\<close> anywhere, the entity name
  is not empty and the lowercased entity name does not occur in the lowercased
  \<open>source_name\<close>; it is 1.0 otherwise. In particular a \<open>source_name\<close> that starts with
  \<open>Google News:\<close> or \<open>Yahoo Finance News:\<close> gets 0.2 when a non-empty entity name is absent
  from it.
\<close>

theorem pollution_penalty_substring:
  "pollution_penalty entity_name it =
     (if (py_in ''google news:'' (lower (py_str (get_default (source_name it) [])))
          \<or> py_in ''yahoo finance news:'' (lower (py_str (get_default (source_name it) []))))
         \<and> or_empty entity_name \<noteq> []
         \<and> \<not> py_in (lower (or_empty entity_name)) (lower (py_str (get_default (source_name it) [])))
      then 0.2 else 1) \<and>
   ((prefix ''Google News:'' nm \<or> prefix ''Yahoo Finance News:'' nm) \<and> source_name it = Val nm
      \<and> or_empty entity_name \<noteq> [] \<and> \<not> py_in (lower (or_empty entity_name)) (lower nm)
      \<longrightarrow> pollution_penalty entity_name it = 0.2)"
proof (intro conjI impI)
  show "pollution_penalty entity_name it =
     (if (py_in ''google news:'' (lower (py_str (get_default (source_name it) [])))
          \<or> py_in ''yahoo finance news:'' (lower (py_str (get_default (source_name it) []))))
         \<and> or_empty entity_name \<noteq> []
         \<and> \<not> py_in (lower (or_empty entity_name)) (lower (py_str (get_default (source_name it) [])))
      then 0.2 else 1)"
    unfolding pollution_penalty_def Let_def by presburger
next
  assume a: "(prefix ''Google News:'' nm \<or> prefix ''Yahoo Finance News:'' nm) \<and> source_name it = Val nm
      \<and> or_empty entity_name \<noteq> [] \<and> \<not> py_in (lower (or_empty entity_name)) (lower nm)"
  then have src: "lower (py_str (get_default (source_name it) [])) = lower nm"
    by (simp add: get_default_def py_str_def)
  have g: "lower ''Google News:'' = ''google news:''" by code_simp
  have y: "lower ''Yahoo Finance News:'' = ''yahoo finance news:''" by code_simp
  from a have "py_in ''google news:'' (lower nm) \<or> py_in ''yahoo finance news:'' (lower nm)"
    using prefix_py_in_lower [of "''Google News:''" nm]
      prefix_py_in_lower [of "''Yahoo Finance News:''" nm] unfolding g y by blast
  with a src show "pollution_penalty entity_name it = 0.2"
    unfolding pollution_penalty_def Let_def by presburger
qed

theorem pollution_penalty_substring_witness:
  "(prefix ''Google News:'' ''Google News: Apple'' \<or> prefix ''Yahoo Finance News:'' ''Google News: Apple'')
   \<and> source_name (sample_item\<lparr>source_name := Val ''Google News: Apple''\<rparr>) = Val ''Google News: Apple''
   \<and> or_empty (Some ''Microsoft'') \<noteq> []
   \<and> \<not> py_in (lower (or_empty (Some ''Microsoft''))) (lower ''Google News: Apple'')
   \<and> pollution_penalty (Some ''Microsoft'') (sample_item\<lparr>source_name := Val ''Google News: Apple''\<rparr>) = 0.2"
proof -
  have h: "(prefix ''Google News:'' ''Google News: Apple'' \<or> prefix ''Yahoo Finance News:'' ''Google News: Apple'')
   \<and> source_name (sample_item\<lparr>source_name := Val ''Google News: Apple''\<rparr>) = Val ''Google News: Apple''
   \<and> or_empty (Some ''Microsoft'') \<noteq> []
   \<and> \<not> py_in (lower (or_empty (Some ''Microsoft''))) (lower ''Google News: Apple'')"
    by code_simp
  with pollution_penalty_substring [where nm = "''Google News: Apple''"
      and it = "sample_item\<lparr>source_name := Val ''Google News: Apple''\<rparr>"
      and entity_name = "Some ''Microsoft''"]
  show ?thesis by blast
qed

text \<open>
  The claim as stated fails: a \<open>source_name\<close> that only contains \<open>Google News:\<close>, without
  starting with it, is penalised.
\<close>

theorem pollution_penalty_prefix_counterexample:
  "pollution_penalty (Some ''Microsoft'') (sample_item\<lparr>source_name := Val ''Feed - Google News: Apple''\<rparr>) = 0.2
   \<and> \<not> prefix ''Google News:'' ''Feed - Google News: Apple''
   \<and> \<not> prefix ''Yahoo Finance News:'' ''Feed - Google News: Apple''"
  by code_simp

lemma source_quality_factor_range:
  "0 \<le> source_quality_factor a b \<and> source_quality_factor a b \<le> 1"
  unfolding source_quality_factor_def Let_def by simp

lemma token_relevance_range: "0 \<le> token_relevance ts a b \<and> token_relevance ts a b \<le> 1"
  unfolding token_relevance_def Let_def by simp

lemma recency_score_range: "0 \<le> recency_score now c \<and> recency_score now c \<le> 1"
proof (cases c)
  case None
  then show ?thesis by (simp add: recency_score_def)
next
  case (Some t)
  define age where "age = max ((now - t) / 3600) 0"
  have "0 \<le> age" by (simp add: age_def)
  then have "0 \<le> 1 / (1 + age / 24) \<and> 1 / (1 + age / 24) \<le> 1" by (simp add: divide_le_eq)
  then show ?thesis using Some by (simp add: recency_score_def Let_def age_def)
qed

lemma multipliers_range:
  "0 \<le> critic_factor it * sector_penalty qc it * pollution_penalty nm it \<and>
   critic_factor it * sector_penalty qc it * pollution_penalty nm it \<le> 1.1"
proof -
  have c: "0 \<le> critic_factor it" "critic_factor it \<le> 1" by (simp_all add: critic_factor_def)
  have s: "0 \<le> sector_penalty qc it" "sector_penalty qc it \<le> 1.1"
    unfolding sector_penalty_def Let_def by simp_all
  have p: "0 \<le> pollution_penalty nm it" "pollution_penalty nm it \<le> 1"
    unfolding pollution_penalty_def Let_def by simp_all
  have cs0: "0 \<le> critic_factor it * sector_penalty qc it" using c(1) s(1) by simp
  have "critic_factor it * sector_penalty qc it \<le> 1 * 1.1"
    using c s by (intro mult_mono) simp_all
  then have cs1: "critic_factor it * sector_penalty qc it \<le> 1.1" by simp
  have "critic_factor it * sector_penalty qc it * pollution_penalty nm it \<le> 1.1 * 1"
    using cs0 cs1 p by (intro mult_mono) simp_all
  moreover have "0 \<le> critic_factor it * sector_penalty qc it * pollution_penalty nm it"
    using cs0 p(1) by simp
  ultimately show ?thesis by simp
qed

lemma weighted_sum_range:
  assumes "0 \<le> e" "e \<le> 1" "0 \<le> s" "s \<le> 1" "0 \<le> c" "c \<le> 1" "0 \<le> m" "m \<le> 1"
    "0 \<le> t" "t \<le> 1" "0 \<le> k" "k \<le> 1" "0 \<le> r" "r \<le> 1"
  shows "0 \<le> weighted_sum e s c m t k r \<and> weighted_sum e s c m t k r \<le> 1"
  using assms unfolding weighted_sum_def by simp

lemma score_item_range:
  assumes "0 \<le> get_float (confidence it)" "get_float (confidence it) \<le> 1"
    "0 \<le> get_float (text_rank it)" "get_float (text_rank it) \<le> 1"
    "0 \<le> get_float (similarity_score it)" "get_float (similarity_score it) \<le> 1"
  shows "0 \<le> enr_rank_score (score_item now qc it) \<and> enr_rank_score (score_item now qc it) \<le> 1.5"
proof -
  define w where "w = weighted_sum (entity_relevance (ticker qc) (entity qc) it)
                 (source_quality_factor (get (source_name it)) (get (evidence_ref it)))
                 (get_float (confidence it)) (get_float (similarity_score it))
                 (get_float (text_rank it))
                 (token_relevance (tokens qc) (get (insight it)) (get (recommendation it)))
                 (recency_score now (get (created_at it)))"
  define f where "f = critic_factor it * sector_penalty qc it * pollution_penalty (entity qc) it"
  have w: "0 \<le> w \<and> w \<le> 1" unfolding w_def
    using assms entity_relevance_range source_quality_factor_range token_relevance_range
      recency_score_range by (intro weighted_sum_range) blast+
  have f: "0 \<le> f \<and> f \<le> 1.1" unfolding f_def by (rule multipliers_range)
  have "w * f \<le> 1 * 1.1" using w f by (intro mult_mono) simp_all
  then have up: "w * f \<le> of_int 15000 / 10 ^ 4" by simp
  have lo: "0 \<le> w * f" using w f by simp
  have eq: "enr_rank_score (score_item now qc it) = py_round (w * f) 4"
    unfolding score_item_rank_score w_def f_def ..
  have "py_round (w * f) 4 \<le> of_int 15000 / 10 ^ 4" using up by (rule py_round_le)
  then have "py_round (w * f) 4 \<le> 1.5" by simp
  with py_round_nonneg [OF lo, of 4] eq show ?thesis by simp
qed

text \<open>
  C1 (as amended). When the item's \<open>confidence\<close>, \<open>text_rank\<close> and \<open>similarity_score\<close> lie in
  \<open>[0, 1]\<close>, its rank score lies in \<open>[0, 1.5]\<close>, for the score computed in the loop and for
  every item that \<open>_rank_items\<close> returns. The weighted sum before the multipliers is
  monotone non-decreasing in each of its seven factors when the other six are fixed.
\<close>

theorem rank_score_bounded_weighted_sum_monotone:
  "(0 \<le> get_float (confidence it) \<and> get_float (confidence it) \<le> 1 \<and>
    0 \<le> get_float (text_rank it) \<and> get_float (text_rank it) \<le> 1 \<and>
    0 \<le> get_float (similarity_score it) \<and> get_float (similarity_score it) \<le> 1 \<longrightarrow>
      0 \<le> enr_rank_score (score_item now qc it) \<and> enr_rank_score (score_item now qc it) \<le> 1.5) \<and>
   ((\<forall>x \<in> set items. 0 \<le> get_float (confidence x) \<and> get_float (confidence x) \<le> 1 \<and>
        0 \<le> get_float (text_rank x) \<and> get_float (text_rank x) \<le> 1 \<and>
        0 \<le> get_float (similarity_score x) \<and> get_float (similarity_score x) \<le> 1) \<longrightarrow>
      (\<forall>r \<in> set (rank_items clock h items qc). 0 \<le> enr_rank_score r \<and> enr_rank_score r \<le> 1.5)) \<and>
   (e \<le> e' \<longrightarrow> weighted_sum e s c m t k r \<le> weighted_sum e' s c m t k r) \<and>
   (s \<le> s' \<longrightarrow> weighted_sum e s c m t k r \<le> weighted_sum e s' c m t k r) \<and>
   (c \<le> c' \<longrightarrow> weighted_sum e s c m t k r \<le> weighted_sum e s c' m t k r) \<and>
   (m \<le> m' \<longrightarrow> weighted_sum e s c m t k r \<le> weighted_sum e s c m' t k r) \<and>
   (t \<le> t' \<longrightarrow> weighted_sum e s c m t k r \<le> weighted_sum e s c m t' k r) \<and>
   (k \<le> k' \<longrightarrow> weighted_sum e s c m t k r \<le> weighted_sum e s c m t k' r) \<and>
   (r \<le> r' \<longrightarrow> weighted_sum e s c m t k r \<le> weighted_sum e s c m t k r')"
proof (intro conjI impI ballI)
  assume "0 \<le> get_float (confidence it) \<and> get_float (confidence it) \<le> 1 \<and>
    0 \<le> get_float (text_rank it) \<and> get_float (text_rank it) \<le> 1 \<and>
    0 \<le> get_float (similarity_score it) \<and> get_float (similarity_score it) \<le> 1"
  then have "0 \<le> enr_rank_score (score_item now qc it) \<and>
      enr_rank_score (score_item now qc it) \<le> 1.5" by (intro score_item_range) blast+
  then show "0 \<le> enr_rank_score (score_item now qc it)"
    "enr_rank_score (score_item now qc it) \<le> 1.5" by simp_all
next
  fix r0
  assume a: "\<forall>x \<in> set items. 0 \<le> get_float (confidence x) \<and> get_float (confidence x) \<le> 1 \<and>
        0 \<le> get_float (text_rank x) \<and> get_float (text_rank x) \<le> 1 \<and>
        0 \<le> get_float (similarity_score x) \<and> get_float (similarity_score x) \<le> 1"
    and "r0 \<in> set (rank_items clock h items qc)"
  then obtain i x where x: "x \<in> set items" "r0 = score_item (clock i) qc x"
    using rank_items_scored by blast
  with a have "0 \<le> enr_rank_score (score_item (clock i) qc x) \<and>
      enr_rank_score (score_item (clock i) qc x) \<le> 1.5" by (intro score_item_range) blast+
  with x show "0 \<le> enr_rank_score r0" "enr_rank_score r0 \<le> 1.5" by simp_all
qed (simp_all add: weighted_sum_def)

theorem rank_score_bounded_weighted_sum_monotone_witness:
  "0 \<le> get_float (confidence sample_item) \<and> get_float (confidence sample_item) \<le> 1 \<and>
   0 \<le> get_float (text_rank sample_item) \<and> get_float (text_rank sample_item) \<le> 1 \<and>
   0 \<le> get_float (similarity_score sample_item) \<and> get_float (similarity_score sample_item) \<le> 1 \<and>
   0 \<le> enr_rank_score (score_item 0 sample_context sample_item) \<and>
   enr_rank_score (score_item 0 sample_context sample_item) \<le> 1.5 \<and>
   list_all (\<lambda>r. 0 \<le> enr_rank_score r \<and> enr_rank_score r \<le> 1.5)
     (rank_items (\<lambda>i. 0) (\<lambda>s. s) [sample_item] sample_context) \<and>
   (0 :: real) \<le> 1 \<and>
   weighted_sum 0 0 0 0 0 0 0 \<le> weighted_sum 1 0 0 0 0 0 0 \<and>
   weighted_sum 0 0 0 0 0 0 0 \<le> weighted_sum 0 1 0 0 0 0 0 \<and>
   weighted_sum 0 0 0 0 0 0 0 \<le> weighted_sum 0 0 1 0 0 0 0 \<and>
   weighted_sum 0 0 0 0 0 0 0 \<le> weighted_sum 0 0 0 1 0 0 0 \<and>
   weighted_sum 0 0 0 0 0 0 0 \<le> weighted_sum 0 0 0 0 1 0 0 \<and>
   weighted_sum 0 0 0 0 0 0 0 \<le> weighted_sum 0 0 0 0 0 1 0 \<and>
   weighted_sum 0 0 0 0 0 0 0 \<le> weighted_sum 0 0 0 0 0 0 1"
proof -
  have h: "0 \<le> get_float (confidence sample_item) \<and> get_float (confidence sample_item) \<le> 1 \<and>
   0 \<le> get_float (text_rank sample_item) \<and> get_float (text_rank sample_item) \<le> 1 \<and>
   0 \<le> get_float (similarity_score sample_item) \<and> get_float (similarity_score sample_item) \<le> 1"
    by (simp add: sample_item_def get_float_def get_default_def)
  then have hs: "\<forall>x \<in> set [sample_item]. 0 \<le> get_float (confidence x) \<and> get_float (confidence x) \<le> 1 \<and>
        0 \<le> get_float (text_rank x) \<and> get_float (text_rank x) \<le> 1 \<and>
        0 \<le> get_float (similarity_score x) \<and> get_float (similarity_score x) \<le> 1"
    by simp
  have z: "(0 :: real) \<le> 1" by simp
  show ?thesis
    using h hs z
      rank_score_bounded_weighted_sum_monotone [where it = sample_item and now = 0
        and qc = sample_context and items = "[sample_item]" and clock = "\<lambda>i. 0" and h = "\<lambda>s. s"
        and e = 0 and e' = 1 and s = 0 and s' = 1 and c = 0 and c' = 1 and m = 0 and m' = 1
        and t = 0 and t' = 1 and k = 0 and k' = 1 and r = 0 and r' = 1]
    unfolding list_all_iff by blast
qed

text \<open>
  The claim as stated fails: the code does not clamp the three fields it reads from the
  item. A pseudo-insight built by the hybrid retrieval from a memory chunk of cosine
  similarity \<open>-0.8\<close> (confidence and similarity \<open>-0.8\<close>, no date, approved) gets the
  rank score \<open>-0.08\<close>.
\<close>

theorem rank_score_range_counterexample:
  "\<not> (0 \<le> enr_rank_score (score_item 0 sample_context
          \<lparr>source_name = Val [], insight = Val ''unrelated chunk'', recommendation = Val [],
           evidence_ref = Val [], confidence = Val (- 0.8), text_rank = Val 0,
           similarity_score = Val (- 0.8), created_at = Null, critic_status = Val ''approved'',
           threat_level = Val ''low''\<rparr>)
      \<and> enr_rank_score (score_item 0 sample_context
          \<lparr>source_name = Val [], insight = Val ''unrelated chunk'', recommendation = Val [],
           evidence_ref = Val [], confidence = Val (- 0.8), text_rank = Val 0,
           similarity_score = Val (- 0.8), created_at = Null, critic_status = Val ''approved'',
           threat_level = Val ''low''\<rparr>) \<le> 1.5)"
  by code_simp

section \<open>Properties of the upserts\<close>

lemma upsert_entity_stores:
  "upsert_entity now a tbl = (r, tbl') \<Longrightarrow> ent_rows tbl' (a_ticker a) = Some r"
  by (auto simp: upsert_entity_def Let_def)

text \<open>
  C3 (as amended). After an upsert of \<open>e\<close>, a second upsert with the same ticker changes
  \<open>name\<close>, \<open>cik\<close>, \<open>sector\<close>, \<open>industry\<close> and \<open>exchange\<close> only where the incoming value is not
  empty (the incoming value wins there), keeps \<open>id\<close>, \<open>ticker\<close>, \<open>entity_type\<close> and
  \<open>created_at\<close>, and always replaces \<open>aliases\<close> by the incoming list and \<open>updated_at\<close> by the
  time of the statement. With every incoming field empty, the stored row is the row after
  the first upsert except for \<open>aliases\<close>, which becomes the incoming (empty) list, and
  \<open>updated_at\<close>.
\<close>

theorem upsert_entity_coalesces:
  assumes "upsert_entity now1 a1 tbl = (r1, tbl1)"
    and "a_ticker a2 = a_ticker a1"
    and "upsert_entity now2 a2 tbl1 = (r2, tbl2)"
  shows "e_name r2 = (if a_name a2 = [] then e_name r1 else a_name a2)
       \<and> e_cik r2 = (if a_cik a2 = [] then e_cik r1 else Some (a_cik a2))
       \<and> e_sector r2 = (if a_sector a2 = [] then e_sector r1 else Some (a_sector a2))
       \<and> e_industry r2 = (if a_industry a2 = [] then e_industry r1 else Some (a_industry a2))
       \<and> e_exchange r2 = (if a_exchange a2 = [] then e_exchange r1 else Some (a_exchange a2))
       \<and> e_aliases r2 = (case a_aliases a2 of None \<Rightarrow> [] | Some xs \<Rightarrow> xs)
       \<and> e_id r2 = e_id r1 \<and> e_ticker r2 = e_ticker r1 \<and> e_entity_type r2 = e_entity_type r1
       \<and> e_created_at r2 = e_created_at r1 \<and> e_updated_at r2 = now2
       \<and> ent_rows tbl2 (a_ticker a1) = Some r2
       \<and> (a_name a2 = [] \<and> a_cik a2 = [] \<and> a_sector a2 = [] \<and> a_industry a2 = [] \<and> a_exchange a2 = []
            \<longrightarrow> r2 = r1\<lparr>e_aliases := (case a_aliases a2 of None \<Rightarrow> [] | Some xs \<Rightarrow> xs),
                        e_updated_at := now2\<rparr>)"
proof -
  have st: "ent_rows tbl1 (a_ticker a2) = Some r1"
    using assms(1,2) upsert_entity_stores by metis
  have r2: "r2 = r1\<lparr>e_name := (if a_name a2 = [] then e_name r1 else a_name a2),
                         e_cik := coalesce_nullif (a_cik a2) (e_cik r1),
                         e_sector := coalesce_nullif (a_sector a2) (e_sector r1),
                         e_industry := coalesce_nullif (a_industry a2) (e_industry r1),
                         e_exchange := coalesce_nullif (a_exchange a2) (e_exchange r1),
                         e_aliases := (case a_aliases a2 of None \<Rightarrow> [] | Some xs \<Rightarrow> xs),
                         e_updated_at := now2\<rparr>"
    using assms(3) st by (simp add: upsert_entity_def Let_def)
  have stored: "ent_rows tbl2 (a_ticker a1) = Some r2"
    using assms(2,3) upsert_entity_stores by metis
  show ?thesis
    using stored by (auto simp: r2 coalesce_nullif_def empty_args_def)
qed

theorem upsert_entity_coalesces_witness:
  "e_name (fst (upsert_entity 2 (empty_args ''AAPL'') (snd (upsert_entity 1 sample_args empty_table))))
     = ''Apple Inc.''
   \<and> e_cik (fst (upsert_entity 2 (empty_args ''AAPL'') (snd (upsert_entity 1 sample_args empty_table))))
     = Some ''0000320193''
   \<and> e_aliases (fst (upsert_entity 2 (empty_args ''AAPL'') (snd (upsert_entity 1 sample_args empty_table))))
     = []
   \<and> e_updated_at (fst (upsert_entity 2 (empty_args ''AAPL'') (snd (upsert_entity 1 sample_args empty_table))))
     = 2"
proof -
  define first where "first = upsert_entity 1 sample_args empty_table"
  define second where "second = upsert_entity 2 (empty_args ''AAPL'') (snd first)"
  have h1: "upsert_entity 1 sample_args empty_table = (fst first, snd first)"
    by (simp add: first_def)
  have h2: "a_ticker (empty_args ''AAPL'') = a_ticker sample_args"
    by (simp add: empty_args_def sample_args_def)
  have h3: "upsert_entity 2 (empty_args ''AAPL'') (snd first) = (fst second, snd second)"
    by (simp add: second_def)
  have r1: "e_name (fst first) = ''Apple Inc.''" "e_cik (fst first) = Some ''0000320193''"
    by (simp_all add: first_def upsert_entity_def Let_def sample_args_def empty_table_def)
  have "fst second = (fst first)\<lparr>e_aliases := [], e_updated_at := 2\<rparr>"
    using upsert_entity_coalesces [OF h1 h2 h3] by (simp add: empty_args_def)
  then show ?thesis using r1 unfolding second_def first_def by simp
qed

text \<open>
  The claim as stated fails: the update sets \<open>aliases = EXCLUDED.aliases\<close> without
  coalescing, so the second upsert wipes the aliases of the first (the two statements run
  at the same time here, so that \<open>updated_at\<close> does not differ).
\<close>

theorem upsert_entity_aliases_counterexample:
  "ent_rows (snd (upsert_entity 1 (empty_args ''AAPL'') (snd (upsert_entity 1 sample_args empty_table)))) ''AAPL''
   \<noteq> ent_rows (snd (upsert_entity 1 sample_args empty_table)) ''AAPL''"
  by (simp add: upsert_entity_def Let_def sample_args_def empty_args_def empty_table_def coalesce_nullif_def)

lemma deep_merge_lookup:
  "deep_merge existing excluded k = (case excluded k of None \<Rightarrow> existing k | Some v \<Rightarrow> Some v)"
  by (auto simp: deep_merge_def map_add_def split: option.splits)

lemma upsert_financial_period_conflict:
  assumes "tbl (period_key_of a) = Some old"
    and "upsert_financial_period a tbl = (r, tbl')"
  shows "income_statement r = deep_merge (income_statement old) (or_empty_dict (pa_income_statement a))"
    and "balance_sheet r = deep_merge (balance_sheet old) (or_empty_dict (pa_balance_sheet a))"
    and "cash_flow r = deep_merge (cash_flow old) (or_empty_dict (pa_cash_flow a))"
    and "key_metrics r = deep_merge (key_metrics old) (or_empty_dict (pa_key_metrics a))"
    and "tbl' (period_key_of a) = Some r"
  using assms by (auto simp: upsert_financial_period_def Let_def)

text \<open>
  C4. On a conflict with a stored row, each of the four statement maps is left unchanged
  when the incoming map is empty (or \<open>None\<close>); otherwise a key of the incoming map takes the
  incoming value and a stored key that the incoming map lacks keeps its value. In
  particular \<open>deep_merge existing {} = existing\<close>.
\<close>

theorem upsert_financial_period_merges:
  assumes "tbl (period_key_of a) = Some old"
    and "upsert_financial_period a tbl = (r, tbl')"
  shows "(or_empty_dict (pa_income_statement a) = Map.empty \<longrightarrow> income_statement r = income_statement old)
       \<and> (or_empty_dict (pa_balance_sheet a) = Map.empty \<longrightarrow> balance_sheet r = balance_sheet old)
       \<and> (or_empty_dict (pa_cash_flow a) = Map.empty \<longrightarrow> cash_flow r = cash_flow old)
       \<and> (or_empty_dict (pa_key_metrics a) = Map.empty \<longrightarrow> key_metrics r = key_metrics old)
       \<and> (\<forall>k. income_statement r k =
             (case or_empty_dict (pa_income_statement a) k of
                None \<Rightarrow> income_statement old k | Some v \<Rightarrow> Some v))
       \<and> (\<forall>k. balance_sheet r k =
             (case or_empty_dict (pa_balance_sheet a) k of
                None \<Rightarrow> balance_sheet old k | Some v \<Rightarrow> Some v))
       \<and> (\<forall>k. cash_flow r k =
             (case or_empty_dict (pa_cash_flow a) k of None \<Rightarrow> cash_flow old k | Some v \<Rightarrow> Some v))
       \<and> (\<forall>k. key_metrics r k =
             (case or_empty_dict (pa_key_metrics a) k of None \<Rightarrow> key_metrics old k | Some v \<Rightarrow> Some v))
       \<and> deep_merge (income_statement old) Map.empty = income_statement old
       \<and> tbl' (period_key_of a) = Some r"
  using upsert_financial_period_conflict [OF assms]
  by (simp add: deep_merge_lookup) (simp add: deep_merge_def)

theorem upsert_financial_period_merges_witness:
  "income_statement (fst (upsert_financial_period sample_period_args sample_periods)) ''revenue'' = Some 120
   \<and> income_statement (fst (upsert_financial_period sample_period_args sample_periods)) ''eps'' = Some 2
   \<and> balance_sheet (fst (upsert_financial_period sample_period_args sample_periods)) = balance_sheet sample_period
   \<and> cash_flow (fst (upsert_financial_period sample_period_args sample_periods)) = cash_flow sample_period"
proof -
  define res where "res = upsert_financial_period sample_period_args sample_periods"
  have h1: "sample_periods (period_key_of sample_period_args) = Some sample_period"
    by (simp add: sample_periods_def period_key_of_def sample_period_args_def)
  have h2: "upsert_financial_period sample_period_args sample_periods = (fst res, snd res)"
    by (simp add: res_def)
  have e: "or_empty_dict (pa_balance_sheet sample_period_args) = Map.empty"
    "or_empty_dict (pa_cash_flow sample_period_args) = Map.empty"
    "or_empty_dict (pa_income_statement sample_period_args) = [''revenue'' \<mapsto> 120]"
    by (simp_all add: or_empty_dict_def sample_period_args_def)
  have i: "income_statement sample_period ''eps'' = Some 2"
    by (simp add: sample_period_def)
  show ?thesis
    using upsert_financial_period_merges [OF h1 h2] e i unfolding res_def by simp
qed

section \<open>Properties of the provider budget\<close>



lemma new_provider_rate_limit_ok: "fst (rate_limit_ok c (new_provider name limit)) = True"
  by (simp add: rate_limit_ok_def new_provider_def Let_def)



lemma rate_limit_ok_name: "provider_name (snd (rate_limit_ok c p)) = provider_name p"
  by (simp add: rate_limit_ok_def Let_def)

lemma dispatch_all_pass:
  assumes "\<forall>(c, p) \<in> set ps. fst (rate_limit_ok c p)"
  shows "snd (dispatch_providers fetch ps (s, invoked)) = invoked @ map (\<lambda>(c, p). provider_name p) ps"
  using assms
proof (induction ps arbitrary: s invoked)
  case Nil
  then show ?case by simp
next
  case (Cons x ps)
  obtain c p where x: "x = (c, p)" by (cases x)
  obtain p' where r: "rate_limit_ok c p = (True, p')"
    using Cons.prems unfolding x by (cases "rate_limit_ok c p") auto
  have n: "provider_name p' = provider_name p" using rate_limit_ok_name [of c p] r by simp
  have rest: "\<forall>(c, p) \<in> set ps. fst (rate_limit_ok c p)" using Cons.prems by simp
  show ?case unfolding x
    by (cases "fetch p'") (simp_all add: r n Cons.IH [OF rest])
qed

text \<open>
  \<open>_get_configured_providers\<close> builds new instances at every run, with the counter at zero
  and no reset date, so the check of the dispatch loop passes for each of them and every
  configured provider is fetched.
\<close>

lemma run_full_enrichment_invokes_configured:
  fixes env :: "'c enrichment_env"
  assumes "env_entity env = Some e"
  shows "snd (run_full_enrichment env) =
     map fst (filter (\<lambda>(name, limit). env_is_configured env name) provider_classes)"
proof -
  define providers where "providers = get_configured_providers (env_is_configured env)"
  define ps where "ps = map (\<lambda>(i, p). (env_clock env i, p)) (enumerate 0 providers)"
  have fresh: "\<forall>p \<in> set providers. \<exists>name limit. p = new_provider name limit"
    unfolding providers_def get_configured_providers_def by auto
  have pass: "\<forall>(c, p) \<in> set ps. fst (rate_limit_ok c p)"
  proof (clarify)
    fix c p assume "(c, p) \<in> set ps"
    then have "p \<in> set providers" unfolding ps_def by (auto simp: in_set_enumerate_eq)
    with fresh obtain name limit where "p = new_provider name limit" by blast
    then show "fst (rate_limit_ok c p)" using new_provider_rate_limit_ok by simp
  qed
  have "map (\<lambda>(c, p). provider_name p) ps = map (\<lambda>x. provider_name (snd x)) (enumerate 0 providers)"
    unfolding ps_def by (simp add: case_prod_unfold o_def)
  also have "\<dots> = map provider_name (map snd (enumerate 0 providers))"
    by (simp only: map_map o_def)
  also have "\<dots> = map provider_name providers"
    by (simp only: map_snd_enumerate)
  finally have names: "map (\<lambda>(c, p). provider_name p) ps = map provider_name providers" .
  have "map provider_name providers =
      map fst (filter (\<lambda>(name, limit). env_is_configured env name) provider_classes)"
    unfolding providers_def get_configured_providers_def
    by (simp add: o_def case_prod_unfold new_provider_def)
  with names have names': "map (\<lambda>(c, p). provider_name p) ps =
      map fst (filter (\<lambda>(name, limit). env_is_configured env name) provider_classes)" by simp
  define s1 :: "'c summary" where
    "s1 = \<lparr>sm_entity = Some \<lparr>se_id = e_id e, se_name = e_name e, se_ticker = e_ticker e,
             se_cik = e_cik e, se_sector = e_sector e\<rparr>,
          providers_run = [], total_records = 0, rss_sources_discovered = env_rss env,
          sm_coverage = None\<rparr>"
  have run: "snd (run_full_enrichment env) = snd (dispatch_providers (env_fetch env) ps (s1, []))"
    using assms unfolding run_full_enrichment_def Let_def ps_def providers_def s1_def
    by (simp add: case_prod_unfold)
  have "snd (dispatch_providers (env_fetch env) ps (s1, [])) =
      [] @ map (\<lambda>(c, p). provider_name p) ps"
    using pass by (rule dispatch_all_pass)
  with run names' show ?thesis by simp
qed


section \<open>Properties of the scenarios\<close>














section \<open>Properties of the batch pipeline\<close>

lemma py_round_zero: "py_round 0 n = 0"
  by (simp add: py_round_def round_half_even_def)

lemma build_decision_no_evidence:
  "build_decision fm env q [] =
     (if parallel_summary env \<noteq> []
      then Inr \<lparr>answer_summary = parallel_summary env, dc_confidence = 0, risk_level = ''low'',
                dc_recommendation =
                  (case be_llm_results env of None \<Rightarrow> []
                   | Some lr \<Rightarrow>
                       (if or_empty (lr_recommendation lr) \<noteq> [] then or_empty (lr_recommendation lr)
                        else ''Evidence confidence is '' @ fmt_percent0 fm 0 @ '' across ''
                             @ fmt_nat fm 0 @ '' sources.''))\<rparr>
      else Inr \<lparr>answer_summary = NO_EVIDENCE_SUMMARY, dc_confidence = 0.25, risk_level = ''low'',
                dc_recommendation = NO_EVIDENCE_RECOMMENDATION\<rparr>)"
  by (cases "be_llm_results env")
     (simp_all add: build_decision_def parallel_summary_def summarize_decision_def Let_def
        confidence_sum_def max_threat_def risk_level_of_def risk_prefix_def py_round_zero)

lemma no_evidence_text: "py_in ''No strong evidence'' NO_EVIDENCE_SUMMARY"
  by code_simp

text \<open>
  C8 (as amended). When the ranking of a batch query yields no evidence item and the run
  returns a report, the decision card has risk level \<open>low\<close>. If the parallel LLM
  generation gave no executive summary, the confidence is 0.25 and the executive summary
  is the \<open>No strong evidence\<close> fallback text; if it gave one, the confidence is 0 and the
  executive summary is the text of the LLM.
\<close>

theorem batch_zero_evidence_decision:
  assumes "run_market_intelligence_query fm env q limit = Inr res"
    and "py_slice (rank_items (be_clock env) (be_md5 env) (be_candidates env)
           (parse_query (be_resolved env) q)) 0 limit = []"
  shows "card_risk_level (rp_decision_card (br_report res)) = ''low'' \<and>
    (parallel_summary env = [] \<longrightarrow>
       card_confidence (rp_decision_card (br_report res)) = 0.25 \<and>
       executive_summary (br_report res) = NO_EVIDENCE_SUMMARY \<and>
       py_in ''No strong evidence'' (executive_summary (br_report res))) \<and>
    (parallel_summary env \<noteq> [] \<longrightarrow>
       card_confidence (rp_decision_card (br_report res)) = 0 \<and>
       executive_summary (br_report res) = parallel_summary env)"
proof -
  obtain dec where dec: "build_decision fm env q [] = Inr dec"
    and res: "executive_summary (br_report res) = answer_summary dec"
      "card_confidence (rp_decision_card (br_report res)) = dc_confidence dec"
      "card_risk_level (rp_decision_card (br_report res)) = risk_level dec"
    using assms
    by (auto simp: run_market_intelligence_query_def Let_def split: option.splits sum.splits)
  show ?thesis
    using dec res no_evidence_text
    by (auto simp: build_decision_no_evidence split: if_splits)
qed

theorem batch_zero_evidence_decision_witness:
  "(case run_market_intelligence_query sample_formatters (sample_batch_env None) ''apple'' 20 of
      Inl e \<Rightarrow> False
    | Inr res \<Rightarrow>
        card_risk_level (rp_decision_card (br_report res)) = ''low'' \<and>
        card_confidence (rp_decision_card (br_report res)) = 0.25 \<and>
        py_in ''No strong evidence'' (executive_summary (br_report res)))"
proof -
  let ?env = "sample_batch_env None"
  let ?r = "run_market_intelligence_query sample_formatters ?env ''apple'' 20"
  have "\<not> isl ?r" by code_simp
  then obtain res where r: "?r = Inr res" by (cases ?r) auto
  have h: "py_slice (rank_items (be_clock ?env) (be_md5 ?env) (be_candidates ?env)
           (parse_query (be_resolved ?env) ''apple'')) 0 20 = []"
    by code_simp
  have p: "parallel_summary ?env = []" by code_simp
  from batch_zero_evidence_decision [OF r h] p
  have "card_risk_level (rp_decision_card (br_report res)) = ''low'' \<and>
        card_confidence (rp_decision_card (br_report res)) = 0.25 \<and>
        py_in ''No strong evidence'' (executive_summary (br_report res))" by blast
  then show ?thesis unfolding r by simp
qed

text \<open>
  The claim as stated fails: step 7 takes the executive summary of the parallel LLM
  generation when there is one, also without evidence, and computes the confidence as
  \<open>0 / max(min(0, 5), 1) = 0\<close>.
\<close>

theorem batch_zero_evidence_llm_counterexample:
  "(case run_market_intelligence_query sample_formatters (sample_batch_env (Some sample_llm_results))
           ''apple'' 20 of
      Inl e \<Rightarrow> False
    | Inr res \<Rightarrow>
        br_evidence_count res = 0 \<and>
        card_confidence (rp_decision_card (br_report res)) \<noteq> 0.25 \<and>
        \<not> py_in ''No strong evidence'' (executive_summary (br_report res)))"
  by code_simp


end
